theory Spec2Isabelle
  imports Complex_Main
begin

section \<open>Loosely typed payloads\<close>

text \<open>
  The configuration service declares \<open>metadata: Dict[str, Any]\<close> and
  \<open>spec: Dict[str, Any]\<close>: both are free-form JSON objects. A JSON value is one of
  Python's \<open>None\<close>, \<open>bool\<close>, \<open>int\<close> (unbounded), \<open>float\<close>, \<open>str\<close>, \<open>list\<close> and
  \<open>dict\<close>. A \<open>dict\<close> keeps its insertion order, so it is an association list; its keys
  are pairwise distinct (\<open>wf_dict\<close> below says so where a property depends on it).
  Floats are abstracted to rationals: the functions below only ask whether a float is zero.
\<close>

datatype json =
    JNull
  | JBool bool
  | JInt int
  | JFloat rat
  | JStr string
  | JList "json list"
  | JObj "(string \<times> json) list"

type_synonym dict = "(string \<times> json) list"

text \<open>
  The exceptions of the program. \<open>ApiException\<close> is the fault of the cluster API client,
  with its HTTP status and its text; \<open>OtherException\<close> stands for any other exception a
  library call raises; \<open>HTTPException\<close> is the service error of the REST layer, with its
  status code and detail.
\<close>

datatype error =
    KeyError string
  | AttributeError
  | TypeError
  | ApiException int string
  | OtherException string
  | HTTPException int string

text \<open>Truth value testing (\<open>if x\<close>, \<open>not x\<close>) of a JSON value.\<close>

fun truthy :: "json \<Rightarrow> bool" where
  "truthy JNull = False"
| "truthy (JBool b) = b"
| "truthy (JInt n) = (n \<noteq> 0)"
| "truthy (JFloat r) = (r \<noteq> 0)"
| "truthy (JStr s) = (s \<noteq> [])"
| "truthy (JList xs) = (xs \<noteq> [])"
| "truthy (JObj kvs) = (kvs \<noteq> [])"

text \<open>\<open>d.get(k, default)\<close> and \<open>d.get(k)\<close>, whose default is \<open>None\<close>.\<close>

definition dict_get_default :: "dict \<Rightarrow> string \<Rightarrow> json \<Rightarrow> json" where
  "dict_get_default d k dflt = (case map_of d k of None \<Rightarrow> dflt | Some v \<Rightarrow> v)"

definition dict_get :: "dict \<Rightarrow> string \<Rightarrow> json" where
  "dict_get d k = dict_get_default d k JNull"

text \<open>\<open>d[k]\<close>: raises \<open>KeyError\<close> on a missing key.\<close>

definition dict_getitem :: "dict \<Rightarrow> string \<Rightarrow> error + json" where
  "dict_getitem d k = (case map_of d k of None \<Rightarrow> Inl (KeyError k) | Some v \<Rightarrow> Inr v)"

text \<open>\<open>d[k] = v\<close>: an existing key keeps its position, a new key goes to the end.\<close>

fun dict_set :: "dict \<Rightarrow> string \<Rightarrow> json \<Rightarrow> dict" where
  "dict_set [] k v = [(k, v)]"
| "dict_set ((k', v') # d) k v = (if k' = k then (k, v) # d else (k', v') # dict_set d k v)"

text \<open>\<open>d.setdefault(k, v)\<close>, used for its effect on \<open>d\<close> only.\<close>

definition dict_setdefault :: "dict \<Rightarrow> string \<Rightarrow> json \<Rightarrow> dict" where
  "dict_setdefault d k v = (case map_of d k of None \<Rightarrow> d @ [(k, v)] | Some _ \<Rightarrow> d)"

definition wf_dict :: "dict \<Rightarrow> bool" where
  "wf_dict d = distinct (map fst d)"

text \<open>
  \<open>isinstance(x, int)\<close>: Python's \<open>bool\<close> is a subclass of \<open>int\<close>, so \<open>True\<close> and
  \<open>False\<close> pass the test.
\<close>

fun isinstance_int :: "json \<Rightarrow> bool" where
  "isinstance_int (JInt n) = True"
| "isinstance_int (JBool b) = True"
| "isinstance_int v = False"

text \<open>
  \<open>x <= 0\<close>. \<open>True\<close> compares as 1 and \<open>False\<close> as 0. Python raises \<open>TypeError\<close> when
  \<open>x\<close> is \<open>None\<close>, a string, a list or a dict; the validator only evaluates the comparison
  behind \<open>isinstance(x, int)\<close> (the right operand of a short-circuit \<open>or\<close>), so those
  equations are never reached there.
\<close>

fun le_zero :: "json \<Rightarrow> bool" where
  "le_zero (JInt n) = (n \<le> 0)"
| "le_zero (JBool b) = ((if b then 1 else 0 :: int) \<le> 0)"
| "le_zero (JFloat r) = (r \<le> 0)"
| "le_zero v = False"

section \<open>The configuration resource and the validator\<close>

record ApplicationConfiguration =
  apiVersion :: string
  kind :: string
  metadata :: dict
  spec :: dict

record ValidationResult =
  valid :: bool
  errors :: "string list"
  warnings :: "string list"

text \<open>
  The body of the loop \<open>for env_name, env_config in environments.items()\<close> of
  \<open>validate_configuration\<close>, with the two lists it appends to as accumulators.
  \<open>env_config.get\<close> raises \<open>AttributeError\<close> when \<open>env_config\<close> is not a dict, and so does
  \<open>resources.get\<close> when \<open>resources\<close> is not one.
\<close>

fun validate_environments ::
  "(string \<times> json) list \<Rightarrow> string list \<Rightarrow> string list \<Rightarrow> error + (string list \<times> string list)"
where
  "validate_environments [] errs warns = Inr (errs, warns)"
| "validate_environments ((env_name, env_config) # rest) errs warns =
     (case env_config of
        JObj ec \<Rightarrow>
          (let errs' =
                 (if \<not> isinstance_int (dict_get ec ''replicas'')
                     \<or> le_zero (dict_get_default ec ''replicas'' (JInt 0))
                  then errs @ [''Invalid replica count for environment '' @ env_name]
                  else errs)
           in case dict_get_default ec ''resources'' (JObj []) of
                JObj resources \<Rightarrow>
                  (let warns' =
                         (if \<not> truthy (dict_get resources ''requests'')
                             \<or> \<not> truthy (dict_get resources ''limits'')
                          then warns @ [''Resource requests/limits not fully specified for environment ''
                                         @ env_name]
                          else warns)
                   in validate_environments rest errs' warns')
              | _ \<Rightarrow> Inl AttributeError)
      | _ \<Rightarrow> Inl AttributeError)"

definition validate_configuration :: "ApplicationConfiguration \<Rightarrow> error + ValidationResult" where
  "validate_configuration config =
     (let errors1 = (if \<not> truthy (dict_get (metadata config) ''name'')
                     then [''Configuration name is required''] else []);
          errors2 = (if \<not> truthy (dict_get (metadata config) ''namespace'')
                     then errors1 @ [''Namespace is required''] else errors1);
          errors3 = (if \<not> truthy (dict_get (spec config) ''application'')
                     then errors2 @ [''Application name is required''] else errors2);
          environments = dict_get_default (spec config) ''environments'' (JObj []);
          warnings1 = (if \<not> truthy environments then [''No environments configured''] else [])
      in case environments of
           JObj envs \<Rightarrow>
             (case validate_environments envs errors3 warnings1 of
                Inl e \<Rightarrow> Inl e
              | Inr (errs, warns) \<Rightarrow>
                  Inr \<lparr>valid = (length errs = 0), errors = errs, warnings = warns\<rparr>)
         | _ \<Rightarrow> Inl AttributeError)"

text \<open>Names for the messages and tests of the validator, used to state its properties.\<close>

definition replica_error :: "string \<Rightarrow> string" where
  "replica_error env_name = ''Invalid replica count for environment '' @ env_name"

definition resource_warning :: "string \<Rightarrow> string" where
  "resource_warning env_name =
     ''Resource requests/limits not fully specified for environment '' @ env_name"

definition replicas_rejected :: "dict \<Rightarrow> bool" where
  "replicas_rejected ec =
     (\<not> isinstance_int (dict_get ec ''replicas'')
      \<or> le_zero (dict_get_default ec ''replicas'' (JInt 0)))"

definition resources_incomplete :: "dict \<Rightarrow> bool" where
  "resources_incomplete resources =
     (\<not> truthy (dict_get resources ''requests'') \<or> \<not> truthy (dict_get resources ''limits''))"

definition absent_or_empty :: "dict \<Rightarrow> string \<Rightarrow> bool" where
  "absent_or_empty d k = (\<not> truthy (dict_get d k))"

definition identity_errors :: "ApplicationConfiguration \<Rightarrow> string list" where
  "identity_errors config =
     (if absent_or_empty (metadata config) ''name'' then [''Configuration name is required''] else [])
     @ (if absent_or_empty (metadata config) ''namespace'' then [''Namespace is required''] else [])
     @ (if absent_or_empty (spec config) ''application'' then [''Application name is required''] else [])"

text \<open>A JSON integer greater than zero (a boolean is not one).\<close>

fun positive_integer :: "json \<Rightarrow> bool" where
  "positive_integer (JInt n) = (0 < n)"
| "positive_integer v = False"

text \<open>
  The shapes on which the validator returns instead of raising: an environment is a dict
  whose \<open>resources\<close> entry, when there is one, is a dict; the \<open>environments\<close> entry of the
  spec, when there is one, is a dict of such environments.
\<close>

fun environment_shape_ok :: "json \<Rightarrow> bool" where
  "environment_shape_ok (JObj ec) =
     (case dict_get_default ec ''resources'' (JObj []) of JObj resources \<Rightarrow> True | _ \<Rightarrow> False)"
| "environment_shape_ok v = False"

definition environments_of :: "ApplicationConfiguration \<Rightarrow> json" where
  "environments_of config = dict_get_default (spec config) ''environments'' (JObj [])"

definition validation_shape_ok :: "ApplicationConfiguration \<Rightarrow> bool" where
  "validation_shape_ok config =
     (case environments_of config of
        JObj envs \<Rightarrow> list_all (\<lambda>(env_name, env_config). environment_shape_ok env_config) envs
      | _ \<Rightarrow> False)"

text \<open>
  A configuration with no defect but, possibly, incomplete resources: the three identity
  fields are there and every environment passes the replica test of the validator.
\<close>

definition no_other_defect :: "ApplicationConfiguration \<Rightarrow> bool" where
  "no_other_defect config =
     (\<not> absent_or_empty (metadata config) ''name'' \<and>
      \<not> absent_or_empty (metadata config) ''namespace'' \<and>
      \<not> absent_or_empty (spec config) ''application'' \<and>
      (case environments_of config of
         JObj envs \<Rightarrow>
           list_all (\<lambda>(env_name, env_config).
                       case env_config of JObj ec \<Rightarrow> \<not> replicas_rejected ec | _ \<Rightarrow> False) envs
       | _ \<Rightarrow> False))"

section \<open>Manifest generation for the preview\<close>

text \<open>Sequencing of steps that may raise: the first error ends the computation.\<close>

fun and_then :: "error + 'a \<Rightarrow> ('a \<Rightarrow> error + 'b) \<Rightarrow> error + 'b" where
  "and_then (Inl e) f = Inl e"
| "and_then (Inr x) f = f x"

text \<open>
  \<open>v[k]\<close> on a JSON value with a string key: \<open>KeyError\<close> on a dict without the key,
  \<open>TypeError\<close> on anything that is not a dict.
\<close>

definition subscript :: "json \<Rightarrow> string \<Rightarrow> error + json" where
  "subscript v k = (case v of JObj d \<Rightarrow> dict_getitem d k | _ \<Rightarrow> Inl TypeError)"

text \<open>
  An f-string field \<open>{v}\<close>: a string is inserted as it is; for any other value Python
  inserts \<open>str(v)\<close>, which is taken as the parameter \<open>py_str\<close>.
\<close>

definition format_field :: "(json \<Rightarrow> string) \<Rightarrow> json \<Rightarrow> string" where
  "format_field py_str v = (case v of JStr s \<Rightarrow> s | _ \<Rightarrow> py_str v)"

definition database_manifest ::
  "(json \<Rightarrow> string) \<Rightarrow> ApplicationConfiguration \<Rightarrow> string \<Rightarrow> json \<Rightarrow> error + json" where
  "database_manifest py_str config env_name db_config =
     and_then (dict_getitem (spec config) ''application'') (\<lambda>app.
     and_then (dict_getitem (metadata config) ''namespace'') (\<lambda>ns.
     and_then (subscript db_config ''type'') (\<lambda>db_type.
     and_then (subscript db_config ''size'') (\<lambda>db_size.
       Inr (JObj [
         (''apiVersion'', JStr ''platform.idp/v1alpha1''),
         (''kind'', JStr ''DatabaseInstance''),
         (''metadata'', JObj [
            (''name'', JStr (format_field py_str app @ ''-'' @ env_name @ ''-db'')),
            (''namespace'', ns)]),
         (''spec'', JObj [
            (''type'', db_type),
            (''size'', db_size),
            (''environment'', JStr env_name)])])))))"

definition cache_manifest ::
  "(json \<Rightarrow> string) \<Rightarrow> ApplicationConfiguration \<Rightarrow> string \<Rightarrow> json \<Rightarrow> error + json" where
  "cache_manifest py_str config env_name cache_config =
     and_then (dict_getitem (spec config) ''application'') (\<lambda>app.
     and_then (dict_getitem (metadata config) ''namespace'') (\<lambda>ns.
     and_then (subscript cache_config ''type'') (\<lambda>cache_type.
     and_then (subscript cache_config ''size'') (\<lambda>cache_size.
       (case cache_config of
          JObj cc \<Rightarrow>
            Inr (JObj [
              (''apiVersion'', JStr ''platform.idp/v1alpha1''),
              (''kind'', JStr ''CacheInstance''),
              (''metadata'', JObj [
                 (''name'', JStr (format_field py_str app @ ''-'' @ env_name @ ''-cache'')),
                 (''namespace'', ns)]),
              (''spec'', JObj [
                 (''type'', cache_type),
                 (''size'', cache_size),
                 (''nodes'', dict_get_default cc ''nodes'' (JInt 1)),
                 (''environment'', JStr env_name)])])
        | _ \<Rightarrow> Inl AttributeError)))))"

text \<open>
  The loop \<open>for env_name, env_config in config.spec.get("environments", {}).items()\<close> of
  \<open>_generate_manifests\<close>, with the list it appends to as accumulator.
\<close>

fun environment_manifests ::
  "(json \<Rightarrow> string) \<Rightarrow> ApplicationConfiguration \<Rightarrow> (string \<times> json) list \<Rightarrow> json list
     \<Rightarrow> error + json list"
where
  "environment_manifests py_str config [] manifests = Inr manifests"
| "environment_manifests py_str config ((env_name, env_config) # rest) manifests =
     (case env_config of
        JObj ec \<Rightarrow>
          and_then
            (if truthy (dict_get ec ''database'')
             then and_then (dict_getitem ec ''database'') (\<lambda>db_config.
                  and_then (database_manifest py_str config env_name db_config) (\<lambda>db_manifest.
                    Inr (manifests @ [db_manifest])))
             else Inr manifests)
            (\<lambda>manifests1.
          and_then
            (if truthy (dict_get ec ''cache'')
             then and_then (dict_getitem ec ''cache'') (\<lambda>cache_config.
                  and_then (cache_manifest py_str config env_name cache_config) (\<lambda>cache_manifest.
                    Inr (manifests1 @ [cache_manifest])))
             else Inr manifests1)
            (\<lambda>manifests2. environment_manifests py_str config rest manifests2))
      | _ \<Rightarrow> Inl AttributeError)"

definition generate_manifests ::
  "(json \<Rightarrow> string) \<Rightarrow> ApplicationConfiguration \<Rightarrow> error + json list" where
  "generate_manifests py_str config =
     and_then (dict_getitem (spec config) ''application'') (\<lambda>app.
     and_then (dict_getitem (metadata config) ''namespace'') (\<lambda>ns.
       (let web_app_manifest = JObj [
              (''apiVersion'', JStr ''platform.idp/v1alpha1''),
              (''kind'', JStr ''WebApplication''),
              (''metadata'', JObj [(''name'', app), (''namespace'', ns)]),
              (''spec'', JObj [
                 (''environments'', dict_get_default (spec config) ''environments'' (JObj []))])]
        in case dict_get_default (spec config) ''environments'' (JObj []) of
             JObj envs \<Rightarrow> environment_manifests py_str config envs [web_app_manifest]
           | _ \<Rightarrow> Inl AttributeError)))"

text \<open>\<open>sep.join(docs)\<close>.\<close>

fun join :: "string \<Rightarrow> string list \<Rightarrow> string" where
  "join sep [] = []"
| "join sep [x] = x"
| "join sep (x # y # ys) = x @ sep @ join sep (y # ys)"

text \<open>
  \<open>preview_configuration\<close> serialises every manifest with \<open>yaml.dump\<close> and joins the
  documents with a separator line. The YAML serialiser is a library function, defined on
  every JSON value: it is the parameter \<open>yaml_dump\<close>. Every exception of the body is caught
  and raised again as an \<open>HTTPException\<close> with status 500, whose detail ends with the
  text of the exception (the parameter \<open>exc_text\<close>).
\<close>

definition preview_configuration ::
  "(json \<Rightarrow> string) \<Rightarrow> (json \<Rightarrow> string) \<Rightarrow> (error \<Rightarrow> string) \<Rightarrow> ApplicationConfiguration
     \<Rightarrow> error + string" where
  "preview_configuration yaml_dump py_str exc_text config =
     (case generate_manifests py_str config of
        Inr manifests \<Rightarrow>
          Inr (join ([CHR 0x0A] @ ''---'' @ [CHR 0x0A]) (map yaml_dump manifests))
      | Inl e \<Rightarrow> Inl (HTTPException 500 (''Failed to generate preview: '' @ exc_text e)))"

text \<open>
  The manifests as section 4.3 of the specification words them: one application manifest
  carrying the environment map, then per environment, in the order of the environment map,
  a database manifest when a database sub-spec is present and a cache manifest when a cache
  sub-spec is present. A sub-spec is present when the entry is truthy, as the source tests it.
\<close>

definition field :: "json \<Rightarrow> string \<Rightarrow> json" where
  "field v k = (case v of JObj d \<Rightarrow> dict_get d k | _ \<Rightarrow> JNull)"

definition field_default :: "json \<Rightarrow> string \<Rightarrow> json \<Rightarrow> json" where
  "field_default v k dflt = (case v of JObj d \<Rightarrow> dict_get_default d k dflt | _ \<Rightarrow> dflt)"

definition has_database :: "string \<times> json \<Rightarrow> bool" where
  "has_database env = truthy (field (snd env) ''database'')"

definition has_cache :: "string \<times> json \<Rightarrow> bool" where
  "has_cache env = truthy (field (snd env) ''cache'')"

definition spec_application_manifest :: "json \<Rightarrow> json \<Rightarrow> json \<Rightarrow> json" where
  "spec_application_manifest app ns environments =
     JObj [(''apiVersion'', JStr ''platform.idp/v1alpha1''),
           (''kind'', JStr ''WebApplication''),
           (''metadata'', JObj [(''name'', app), (''namespace'', ns)]),
           (''spec'', JObj [(''environments'', environments)])]"

definition spec_database_manifest :: "string \<Rightarrow> json \<Rightarrow> string \<Rightarrow> json \<Rightarrow> json" where
  "spec_database_manifest app_text ns env_name db =
     JObj [(''apiVersion'', JStr ''platform.idp/v1alpha1''),
           (''kind'', JStr ''DatabaseInstance''),
           (''metadata'', JObj [(''name'', JStr (app_text @ ''-'' @ env_name @ ''-db'')),
                               (''namespace'', ns)]),
           (''spec'', JObj [(''type'', field db ''type''), (''size'', field db ''size''),
                           (''environment'', JStr env_name)])]"

definition spec_cache_manifest :: "string \<Rightarrow> json \<Rightarrow> string \<Rightarrow> json \<Rightarrow> json" where
  "spec_cache_manifest app_text ns env_name cache =
     JObj [(''apiVersion'', JStr ''platform.idp/v1alpha1''),
           (''kind'', JStr ''CacheInstance''),
           (''metadata'', JObj [(''name'', JStr (app_text @ ''-'' @ env_name @ ''-cache'')),
                               (''namespace'', ns)]),
           (''spec'', JObj [(''type'', field cache ''type''), (''size'', field cache ''size''),
                           (''nodes'', field_default cache ''nodes'' (JInt 1)),
                           (''environment'', JStr env_name)])]"

definition spec_environment_manifests :: "string \<Rightarrow> json \<Rightarrow> string \<times> json \<Rightarrow> json list" where
  "spec_environment_manifests app_text ns env =
     (if has_database env
      then [spec_database_manifest app_text ns (fst env) (field (snd env) ''database'')]
      else [])
     @ (if has_cache env
        then [spec_cache_manifest app_text ns (fst env) (field (snd env) ''cache'')]
        else [])"

definition spec_manifests :: "json \<Rightarrow> string \<Rightarrow> json \<Rightarrow> dict \<Rightarrow> json list" where
  "spec_manifests app app_text ns envs =
     spec_application_manifest app ns (JObj envs)
       # concat (map (spec_environment_manifests app_text ns) envs)"

text \<open>
  The shapes on which \<open>_generate_manifests\<close> returns instead of raising: the spec has an
  \<open>application\<close> key and the metadata a \<open>namespace\<close> key; the \<open>environments\<close> entry, when there
  is one, is a dict of dicts; a \<open>database\<close> or \<open>cache\<close> entry of an environment is absent,
  falsy, or a dict with the keys \<open>type\<close> and \<open>size\<close>.
\<close>

definition sub_spec_shape_ok :: "json \<Rightarrow> bool" where
  "sub_spec_shape_ok v =
     (\<not> truthy v \<or>
      (case v of JObj d \<Rightarrow> map_of d ''type'' \<noteq> None \<and> map_of d ''size'' \<noteq> None | _ \<Rightarrow> False))"

fun environment_manifest_shape_ok :: "json \<Rightarrow> bool" where
  "environment_manifest_shape_ok (JObj ec) =
     (sub_spec_shape_ok (dict_get ec ''database'') \<and> sub_spec_shape_ok (dict_get ec ''cache''))"
| "environment_manifest_shape_ok v = False"

definition manifest_shape_ok :: "ApplicationConfiguration \<Rightarrow> bool" where
  "manifest_shape_ok config =
     (map_of (spec config) ''application'' \<noteq> None \<and> map_of (metadata config) ''namespace'' \<noteq> None \<and>
      (case environments_of config of
         JObj envs \<Rightarrow> list_all (\<lambda>(env_name, env_config). environment_manifest_shape_ok env_config) envs
       | _ \<Rightarrow> False))"

definition manifest_kind :: "json \<Rightarrow> json" where
  "manifest_kind m = field m ''kind''"

section \<open>The template catalogue\<close>

record ConfigurationTemplate =
  name :: string
  description :: string
  type :: string
  configuration :: dict

definition builtin_templates :: "ConfigurationTemplate list" where
  "builtin_templates = [
     \<lparr>name = ''web-application'',
      description = ''Standard web application with load balancer'',
      type = ''web-app'',
      configuration = [(''spec'', JObj [(''environments'', JObj [
        (''development'', JObj [
           (''replicas'', JInt 1),
           (''resources'', JObj [
              (''requests'', JObj [(''cpu'', JStr ''100m''), (''memory'', JStr ''128Mi'')]),
              (''limits'', JObj [(''cpu'', JStr ''500m''), (''memory'', JStr ''512Mi'')])])]),
        (''production'', JObj [
           (''replicas'', JInt 3),
           (''resources'', JObj [
              (''requests'', JObj [(''cpu'', JStr ''500m''), (''memory'', JStr ''512Mi'')]),
              (''limits'', JObj [(''cpu'', JStr ''1000m''), (''memory'', JStr ''1Gi'')])])])])])]\<rparr>,
     \<lparr>name = ''api-service'',
      description = ''REST API service with database'',
      type = ''api-service'',
      configuration = [(''spec'', JObj [(''environments'', JObj [
        (''development'', JObj [
           (''replicas'', JInt 1),
           (''resources'', JObj [
              (''requests'', JObj [(''cpu'', JStr ''200m''), (''memory'', JStr ''256Mi'')]),
              (''limits'', JObj [(''cpu'', JStr ''500m''), (''memory'', JStr ''512Mi'')])]),
           (''database'', JObj [(''type'', JStr ''postgresql''), (''size'', JStr ''small'')])]),
        (''production'', JObj [
           (''replicas'', JInt 3),
           (''resources'', JObj [
              (''requests'', JObj [(''cpu'', JStr ''500m''), (''memory'', JStr ''512Mi'')]),
              (''limits'', JObj [(''cpu'', JStr ''1000m''), (''memory'', JStr ''1Gi'')])]),
           (''database'', JObj [(''type'', JStr ''postgresql''), (''size'', JStr ''large'')])])])])]\<rparr>]"

text \<open>
  \<open>get_templates\<close> returns the built-in templates followed by the templates it could load
  from the \<open>*.yaml\<close> files of the template directory (a file that fails to load is skipped).
  The directory is outside the program: its loadable templates are the parameter \<open>custom\<close>.
\<close>

definition get_templates :: "ConfigurationTemplate list \<Rightarrow> ConfigurationTemplate list" where
  "get_templates custom = builtin_templates @ custom"

text \<open>
  \<open>{"application": app_name, **other}\<close>: the entries of \<open>other\<close> are stored in order, each
  replacing an entry with the same key.
\<close>

definition dict_update :: "dict \<Rightarrow> dict \<Rightarrow> dict" where
  "dict_update d other = foldl (\<lambda>acc (k, v). dict_set acc k v) d other"

text \<open>
  \<open>apply_template\<close> only builds a configuration: it calls none of the operations of the
  cluster API, so it takes no cluster state and returns none. Unpacking \<open>**x\<close> raises
  \<open>TypeError\<close> when \<open>x\<close> is not a dict.
\<close>

definition apply_template ::
  "ConfigurationTemplate list \<Rightarrow> string \<Rightarrow> string \<Rightarrow> string \<Rightarrow> error + ApplicationConfiguration"
where
  "apply_template custom template_name app_name namespace =
     (case find (\<lambda>t. name t = template_name) (get_templates custom) of
        None \<Rightarrow> Inl (HTTPException 404 (''Template '' @ template_name @ '' not found''))
      | Some template \<Rightarrow>
          (case dict_get_default (configuration template) ''spec'' (JObj []) of
             JObj template_spec \<Rightarrow>
               Inr \<lparr>apiVersion = ''platform.idp/v1alpha1'',
                    kind = ''ApplicationConfiguration'',
                    metadata = [
                      (''name'', JStr (app_name @ ''-config'')),
                      (''namespace'', JStr namespace),
                      (''labels'', JObj [(''app'', JStr app_name),
                                        (''template'', JStr template_name)])],
                    spec = dict_update [(''application'', JStr app_name)] template_spec\<rparr>
           | _ \<Rightarrow> Inl TypeError))"

section \<open>The store facade over the cluster API\<close>

text \<open>
  The custom-objects API of the cluster is an external service. A request names the
  operation with its arguments (group, version and plural are the same constants in every
  call and are left out); the body is \<open>config.dict()\<close>, which has exactly the four fields
  of the configuration. The service is the parameter \<open>api\<close>: it answers a request in a
  cluster state with a result or an exception, and a new cluster state.

  The world of the service holds the cluster state, the requests sent so far (a history
  kept to state what reaches the cluster) and the number of clock readings so far;
  the \<open>i\<close>-th reading of \<open>datetime.utcnow().isoformat()\<close> is \<open>utcnow i\<close>.
  Logging is not modelled. \<open>_sync_to_git\<close> and \<open>_remove_from_git\<close> only log, inside
  \<open>try\<close>/\<open>except Exception\<close>: they have no other effect and never raise.
\<close>

datatype k8s_request =
    CreateRequest json ApplicationConfiguration
  | PatchRequest json json ApplicationConfiguration
  | DeleteRequest string string

type_synonym 'k cluster_api = "k8s_request \<Rightarrow> 'k \<Rightarrow> (error + json) \<times> 'k"

record 'k world =
  cluster :: 'k
  sent :: "k8s_request list"
  clock_reads :: nat

definition call_api :: "'k cluster_api \<Rightarrow> k8s_request \<Rightarrow> 'k world \<Rightarrow> (error + json) \<times> 'k world" where
  "call_api api req w =
     (case api req (cluster w) of
        (r, k') \<Rightarrow> (r, w\<lparr>cluster := k', sent := sent w @ [req]\<rparr>))"

definition utcnow_isoformat :: "(nat \<Rightarrow> string) \<Rightarrow> 'k world \<Rightarrow> string \<times> 'k world" where
  "utcnow_isoformat utcnow w = (utcnow (clock_reads w), w\<lparr>clock_reads := Suc (clock_reads w)\<rparr>)"

text \<open>
  \<open>config.metadata["annotations"][k] = v\<close>: the annotations dict is updated in place, so
  it keeps its position in the metadata. Item assignment raises \<open>TypeError\<close> on a value
  that is not a dict.
\<close>

definition set_annotation :: "dict \<Rightarrow> string \<Rightarrow> json \<Rightarrow> error + dict" where
  "set_annotation md k v =
     and_then (dict_getitem md ''annotations'') (\<lambda>annotations.
       case annotations of
         JObj a \<Rightarrow> Inr (dict_set md ''annotations'' (JObj (dict_set a k v)))
       | _ \<Rightarrow> Inl TypeError)"

text \<open>
  \<open>ApplicationConfiguration(**result)\<close>, the validation of the API's answer by the model
  class, is the parameter \<open>parse\<close>. Only \<open>ApiException\<close> is caught; any other exception
  leaves the operation as it is.
\<close>

definition create_configuration ::
  "'k cluster_api \<Rightarrow> (nat \<Rightarrow> string) \<Rightarrow> (json \<Rightarrow> error + ApplicationConfiguration)
     \<Rightarrow> ApplicationConfiguration \<Rightarrow> 'k world \<Rightarrow> (error + ApplicationConfiguration) \<times> 'k world"
where
  "create_configuration api utcnow parse config w =
     (let md0 = dict_setdefault (metadata config) ''annotations'' (JObj []);
          (t1, w1) = utcnow_isoformat utcnow w
      in case set_annotation md0 ''created'' (JStr t1) of
           Inl e \<Rightarrow> (Inl e, w1)
         | Inr md1 \<Rightarrow>
             (let (t2, w2) = utcnow_isoformat utcnow w1
              in case set_annotation md1 ''lastModified'' (JStr t2) of
                   Inl e \<Rightarrow> (Inl e, w2)
                 | Inr md2 \<Rightarrow>
                     (case dict_getitem md2 ''namespace'' of
                        Inl e \<Rightarrow> (Inl e, w2)
                      | Inr ns \<Rightarrow>
                          (case call_api api (CreateRequest ns (config\<lparr>metadata := md2\<rparr>)) w2 of
                             (Inr result, w3) \<Rightarrow> (parse result, w3)
                           | (Inl (ApiException status text), w3) \<Rightarrow>
                               (Inl (HTTPException 500 (''Failed to create configuration: '' @ text)), w3)
                           | (Inl e, w3) \<Rightarrow> (Inl e, w3)))))"

definition update_configuration ::
  "'k cluster_api \<Rightarrow> (nat \<Rightarrow> string) \<Rightarrow> (json \<Rightarrow> error + ApplicationConfiguration)
     \<Rightarrow> ApplicationConfiguration \<Rightarrow> 'k world \<Rightarrow> (error + ApplicationConfiguration) \<times> 'k world"
where
  "update_configuration api utcnow parse config w =
     (let md0 = dict_setdefault (metadata config) ''annotations'' (JObj []);
          (t, w1) = utcnow_isoformat utcnow w
      in case set_annotation md0 ''lastModified'' (JStr t) of
           Inl e \<Rightarrow> (Inl e, w1)
         | Inr md1 \<Rightarrow>
             (case dict_getitem md1 ''namespace'' of
                Inl e \<Rightarrow> (Inl e, w1)
              | Inr ns \<Rightarrow>
                  (case dict_getitem md1 ''name'' of
                     Inl e \<Rightarrow> (Inl e, w1)
                   | Inr n \<Rightarrow>
                       (case call_api api (PatchRequest ns n (config\<lparr>metadata := md1\<rparr>)) w1 of
                          (Inr result, w2) \<Rightarrow> (parse result, w2)
                        | (Inl (ApiException status text), w2) \<Rightarrow>
                            (Inl (HTTPException 500 (''Failed to update configuration: '' @ text)), w2)
                        | (Inl e, w2) \<Rightarrow> (Inl e, w2)))))"

definition delete_configuration ::
  "'k cluster_api \<Rightarrow> string \<Rightarrow> string \<Rightarrow> 'k world \<Rightarrow> (error + unit) \<times> 'k world" where
  "delete_configuration api n namespace w =
     (case call_api api (DeleteRequest namespace n) w of
        (Inr result, w1) \<Rightarrow> (Inr (), w1)
      | (Inl (ApiException status text), w1) \<Rightarrow>
          (if status \<noteq> 404
           then (Inl (HTTPException 500 (''Failed to delete configuration: '' @ text)), w1)
           else (Inr (), w1))
      | (Inl e, w1) \<Rightarrow> (Inl e, w1))"

text \<open>
  The handler of \<open>PUT /configurations/{namespace}/{name}\<close> (the route function
  \<open>update_configuration\<close> of the source, which shares its name with the manager's method).
\<close>

definition update_configuration_route ::
  "'k cluster_api \<Rightarrow> (nat \<Rightarrow> string) \<Rightarrow> (json \<Rightarrow> error + ApplicationConfiguration)
     \<Rightarrow> string \<Rightarrow> string \<Rightarrow> ApplicationConfiguration \<Rightarrow> 'k world
     \<Rightarrow> (error + ApplicationConfiguration) \<times> 'k world"
where
  "update_configuration_route api utcnow parse n namespace config w =
     (let md1 = dict_set (metadata config) ''name'' (JStr n);
          md2 = dict_set md1 ''namespace'' (JStr namespace)
      in update_configuration api utcnow parse (config\<lparr>metadata := md2\<rparr>) w)"

text \<open>The metadata on which the stamping of an annotation does not raise.\<close>

definition annotations_assignable :: "dict \<Rightarrow> bool" where
  "annotations_assignable md =
     (case map_of md ''annotations'' of None \<Rightarrow> True | Some (JObj a) \<Rightarrow> True | Some _ \<Rightarrow> False)"

text \<open>The annotations of a metadata dict; none when the entry is missing.\<close>

definition annotations_of :: "dict \<Rightarrow> dict" where
  "annotations_of md = (case map_of md ''annotations'' of Some (JObj a) \<Rightarrow> a | _ \<Rightarrow> [])"

section \<open>The poll loop of the workflow job client\<close>

text \<open>
  \<open>session.get(url)\<close> either raises a \<open>RequestException\<close> (with its text) or returns a
  response with a status code and a body. \<open>response.json()\<close> gives the decoded body, or
  raises the library's \<open>JSONDecodeError\<close>, a \<open>RequestException\<close>, with its text.
\<close>

datatype http_outcome =
    Response int "string + json"
  | RequestException string

text \<open>\<open>str(n)\<close> for an integer, as an f-string inserts a status code.\<close>

definition digit_char :: "nat \<Rightarrow> char" where
  "digit_char d = ''0123456789'' ! d"

function str_nat :: "nat \<Rightarrow> string" where
  "str_nat n = (if n < 10 then [digit_char n] else str_nat (n div 10) @ [digit_char (n mod 10)])"
  by pat_completeness auto
termination
  by (relation "measure id") auto

definition str_int :: "int \<Rightarrow> string" where
  "str_int i = (if i < 0 then ''-'' @ str_nat (nat (- i)) else str_nat (nat i))"

text \<open>
  The world of the client: the reading of \<open>time.time()\<close> in seconds (a float, abstracted to
  a rational) and the number of status requests issued so far. The status endpoint and
  the passing of time are outside the program: the \<open>i\<close>-th request is answered by
  \<open>endpoint i\<close>, and \<open>latency i\<close> is the time that request takes together with any delay up
  to the next reading of the clock; \<open>time.sleep(5)\<close> takes five seconds. Statements
  without input or output take no time.
\<close>

record poll_world =
  now :: rat
  attempts :: nat

definition failure :: "string \<Rightarrow> json" where
  "failure message = JObj [(''success'', JBool False), (''error'', JStr message)]"

text \<open>
  The loop \<open>while time.time() - start_time < max_wait\<close> of \<open>_wait_for_completion\<close>.
  Nothing in the loop bounds the number of iterations but the clock, so the loop is a
  partial function: \<open>None\<close> is a loop that never returns. \<open>job_result.get\<close> raises
  \<open>AttributeError\<close>, which nothing catches, when the decoded body is not a dict.
\<close>

partial_function (option) poll_loop ::
  "(nat \<Rightarrow> http_outcome) \<Rightarrow> (nat \<Rightarrow> rat) \<Rightarrow> string \<Rightarrow> int \<Rightarrow> rat \<Rightarrow> poll_world
     \<Rightarrow> ((error + json) \<times> poll_world) option"
where
  "poll_loop endpoint latency job_id max_wait start_time w =
     (if now w - start_time < of_int max_wait
      then
        (case endpoint (attempts w) of
           RequestException message \<Rightarrow>
             Some (Inr (failure (''Error checking job status: '' @ message)),
                   w\<lparr>now := now w + latency (attempts w), attempts := Suc (attempts w)\<rparr>)
         | Response status_code body \<Rightarrow>
             if status_code = 200
             then
               (case body of
                  Inl message \<Rightarrow>
                    Some (Inr (failure (''Error checking job status: '' @ message)),
                          w\<lparr>now := now w + latency (attempts w), attempts := Suc (attempts w)\<rparr>)
                | Inr (JObj job_result) \<Rightarrow>
                    Some (Inr (JObj [
                            (''success'', JBool True),
                            (''job_id'', JStr job_id),
                            (''result'', dict_get_default job_result ''result'' (JObj [])),
                            (''logs'', dict_get_default job_result ''logs'' (JList []))]),
                          w\<lparr>now := now w + latency (attempts w), attempts := Suc (attempts w)\<rparr>)
                | Inr _ \<Rightarrow>
                    Some (Inl AttributeError,
                          w\<lparr>now := now w + latency (attempts w), attempts := Suc (attempts w)\<rparr>))
             else if status_code = 404
             then poll_loop endpoint latency job_id max_wait start_time
                    (w\<lparr>now := now w + latency (attempts w) + 5, attempts := Suc (attempts w)\<rparr>)
             else Some (Inr (failure (''Job failed with status '' @ str_int status_code)),
                        w\<lparr>now := now w + latency (attempts w), attempts := Suc (attempts w)\<rparr>))
      else Some (Inr (failure ''Job timeout''), w))"

text \<open>\<open>start_time = time.time()\<close>, then the loop. \<open>run_flow\<close> calls it with the default
  \<open>max_wait\<close> of 300 seconds.\<close>

definition wait_for_completion ::
  "(nat \<Rightarrow> http_outcome) \<Rightarrow> (nat \<Rightarrow> rat) \<Rightarrow> string \<Rightarrow> int \<Rightarrow> poll_world
     \<Rightarrow> ((error + json) \<times> poll_world) option" where
  "wait_for_completion endpoint latency job_id max_wait w =
     poll_loop endpoint latency job_id max_wait (now w) w"

definition default_max_wait :: int where
  "default_max_wait = 300"

text \<open>The success result for a decoded body, and the time the first \<open>k\<close> rounds take.\<close>

definition success_result :: "string \<Rightarrow> dict \<Rightarrow> json" where
  "success_result job_id job_result =
     JObj [(''success'', JBool True),
           (''job_id'', JStr job_id),
           (''result'', dict_get_default job_result ''result'' (JObj [])),
           (''logs'', dict_get_default job_result ''logs'' (JList []))]"

definition elapsed :: "(nat \<Rightarrow> rat) \<Rightarrow> nat \<Rightarrow> nat \<Rightarrow> rat" where
  "elapsed latency a k = (\<Sum>i<k. latency (a + i) + 5)"

definition not_found :: "http_outcome \<Rightarrow> bool" where
  "not_found r = (case r of Response status_code body \<Rightarrow> status_code = 404 | _ \<Rightarrow> False)"

section \<open>Stand-ins for the examples\<close>

text \<open>
  The examples below need concrete functions where the model takes a library function as
  a parameter. \<open>example_str\<close> is Python's \<open>str\<close> on \<open>None\<close>, booleans, integers and
  strings (and empty elsewhere); \<open>example_dump\<close> prints only the kind of a manifest;
  \<open>example_text\<close> is the text of a \<open>KeyError\<close> (and empty elsewhere).
\<close>

definition example_str :: "json \<Rightarrow> string" where
  "example_str v =
     (case v of
        JNull \<Rightarrow> ''None''
      | JBool b \<Rightarrow> (if b then ''True'' else ''False'')
      | JInt i \<Rightarrow> str_int i
      | JStr s \<Rightarrow> s
      | _ \<Rightarrow> [])"

definition example_dump :: "json \<Rightarrow> string" where
  "example_dump m = (case manifest_kind m of JStr k \<Rightarrow> k | _ \<Rightarrow> [])"

definition example_text :: "error \<Rightarrow> string" where
  "example_text e = (case e of KeyError k \<Rightarrow> [CHR 0x27] @ k @ [CHR 0x27] | _ \<Rightarrow> [])"

text \<open>
  A small cluster for the examples: its state is the list of the identities
  (namespace, name) it holds. Deleting an identity it holds removes it; deleting one it
  does not hold is answered with the fault 404. Every request in the namespace
  \<open>locked\<close> is answered with the fault 403, and every request in the namespace
  \<open>offline\<close> fails in the transport.
\<close>

definition example_api :: "(string \<times> string) list cluster_api" where
  "example_api req k =
     (case req of
        DeleteRequest namespace n \<Rightarrow>
          (if namespace = ''locked'' then (Inl (ApiException 403 ''Forbidden''), k)
           else if namespace = ''offline'' then (Inl (OtherException ''connection refused''), k)
           else if (namespace, n) \<in> set k then (Inr JNull, removeAll (namespace, n) k)
           else (Inl (ApiException 404 ''Not Found''), k))
      | CreateRequest namespace body \<Rightarrow>
          (Inr (JObj [(''metadata'', JObj (metadata body)), (''spec'', JObj (spec body))]), k)
      | PatchRequest namespace n body \<Rightarrow>
          (Inr (JObj [(''metadata'', JObj (metadata body)), (''spec'', JObj (spec body))]), k))"

definition example_parse :: "json \<Rightarrow> error + ApplicationConfiguration" where
  "example_parse v =
     (case (field v ''metadata'', field v ''spec'') of
        (JObj md, JObj sp) \<Rightarrow>
          Inr \<lparr>apiVersion = ''platform.idp/v1alpha1'', kind = ''ApplicationConfiguration'',
               metadata = md, spec = sp\<rparr>
      | _ \<Rightarrow> Inl (OtherException ''validation error''))"

definition example_clock :: "nat \<Rightarrow> string" where
  "example_clock i = ''2024-01-01T00:00:00.'' @ str_nat i"

text \<open>
  A configuration that was created before (it has a \<open>created\<close> annotation), one whose
  annotations are \<open>null\<close>, and a world with an empty cluster.
\<close>

definition example_config :: ApplicationConfiguration where
  "example_config =
     \<lparr>apiVersion = ''platform.idp/v1alpha1'', kind = ''ApplicationConfiguration'',
      metadata = [(''name'', JStr ''shop-config''), (''namespace'', JStr ''team-a''),
                  (''annotations'', JObj [(''created'', JStr ''2023-12-31T09:00:00''),
                                         (''owner'', JStr ''alice'')])],
      spec = [(''application'', JStr ''shop'')]\<rparr>"

definition example_config_null_annotations :: ApplicationConfiguration where
  "example_config_null_annotations =
     \<lparr>apiVersion = ''platform.idp/v1alpha1'', kind = ''ApplicationConfiguration'',
      metadata = [(''name'', JStr ''shop-config''), (''namespace'', JStr ''team-a''),
                  (''annotations'', JNull)],
      spec = [(''application'', JStr ''shop'')]\<rparr>"

definition example_world :: "(string \<times> string) list world" where
  "example_world = \<lparr>cluster = [], sent = [], clock_reads = 0\<rparr>"

text \<open>
  Status endpoints for the examples: one answers "not found" twice and then with a
  result, one answers "not found" for ever, one answers "not found" once and then with
  the status 500. Every request takes half a second.
\<close>

definition example_endpoint :: "nat \<Rightarrow> http_outcome" where
  "example_endpoint i =
     (if i < 2 then Response 404 (Inl ''no JSON'')
      else Response 200 (Inr (JObj [(''result'', JStr ''done'')])))"

definition example_silent_endpoint :: "nat \<Rightarrow> http_outcome" where
  "example_silent_endpoint i = Response 404 (Inl ''no JSON'')"

definition example_broken_endpoint :: "nat \<Rightarrow> http_outcome" where
  "example_broken_endpoint i =
     (if i < 1 then Response 404 (Inl ''no JSON'') else Response 500 (Inl ''no JSON''))"

definition example_latency :: "nat \<Rightarrow> rat" where
  "example_latency i = 1 / 2"

definition example_start :: poll_world where
  "example_start = \<lparr>now = 1000, attempts = 0\<rparr>"

section \<open>Properties of the validator\<close>

text \<open>One round of the loop, with the names introduced above.\<close>

lemma validate_environments_step:
  "validate_environments ((n, JObj ec) # rest) errs warns =
     (case dict_get_default ec ''resources'' (JObj []) of
        JObj resources \<Rightarrow>
          validate_environments rest
            (if replicas_rejected ec then errs @ [replica_error n] else errs)
            (if resources_incomplete resources then warns @ [resource_warning n] else warns)
      | _ \<Rightarrow> Inl AttributeError)"
  by (cases "dict_get_default ec ''resources'' (JObj [])")
     (simp_all add: replicas_rejected_def resources_incomplete_def replica_error_def
        resource_warning_def Let_def)

lemma validate_environments_returns:
  "list_all (\<lambda>(n, v). environment_shape_ok v) envs \<Longrightarrow>
   \<exists>errs' warns'. validate_environments envs errs warns = Inr (errs', warns')"
proof (induction envs arbitrary: errs warns)
  case Nil
  then show ?case by simp
next
  case (Cons a envs)
  obtain n v where a: "a = (n, v)" by (cases a)
  from Cons.prems a obtain ec where v: "v = JObj ec" by (cases v) auto
  from Cons.prems a v obtain res where r: "dict_get_default ec ''resources'' (JObj []) = JObj res"
    by (cases "dict_get_default ec ''resources'' (JObj [])") auto
  from Cons.prems have "list_all (\<lambda>(n, v). environment_shape_ok v) envs" by simp
  from Cons.IH[OF this] show ?case
    unfolding a v validate_environments_step r by simp
qed

lemma validate_environments_errors:
  "validate_environments envs errs warns = Inr (errs', warns') \<Longrightarrow>
   set errs' = set errs \<union> {replica_error n | n ec. (n, JObj ec) \<in> set envs \<and> replicas_rejected ec}"
proof (induction envs arbitrary: errs warns)
  case Nil
  then show ?case by simp
next
  case (Cons a envs)
  obtain n v where a: "a = (n, v)" by (cases a)
  from Cons.prems a obtain ec where v: "v = JObj ec" by (cases v) auto
  from Cons.prems a v obtain res where r: "dict_get_default ec ''resources'' (JObj []) = JObj res"
    unfolding a v validate_environments_step
    by (cases "dict_get_default ec ''resources'' (JObj [])") auto
  from Cons.prems have step: "validate_environments envs
            (if replicas_rejected ec then errs @ [replica_error n] else errs)
            (if resources_incomplete res then warns @ [resource_warning n] else warns) = Inr (errs', warns')"
    unfolding a v validate_environments_step r by simp
  from Cons.IH[OF step] show ?case
    unfolding a v by auto
qed

lemma validate_environments_warnings:
  "validate_environments envs errs warns = Inr (errs', warns') \<Longrightarrow>
   set warns' = set warns \<union> {resource_warning n | n ec res. (n, JObj ec) \<in> set envs \<and>
       dict_get_default ec ''resources'' (JObj []) = JObj res \<and> resources_incomplete res}"
proof (induction envs arbitrary: errs warns)
  case Nil
  then show ?case by simp
next
  case (Cons a envs)
  obtain n v where a: "a = (n, v)" by (cases a)
  from Cons.prems a obtain ec where v: "v = JObj ec" by (cases v) auto
  from Cons.prems a v obtain res where r: "dict_get_default ec ''resources'' (JObj []) = JObj res"
    unfolding a v validate_environments_step
    by (cases "dict_get_default ec ''resources'' (JObj [])") auto
  from Cons.prems have step: "validate_environments envs
            (if replicas_rejected ec then errs @ [replica_error n] else errs)
            (if resources_incomplete res then warns @ [resource_warning n] else warns) = Inr (errs', warns')"
    unfolding a v validate_environments_step r by simp
  from Cons.IH[OF step] r show ?case
    unfolding a v by auto
qed

lemma validate_configuration_unfold:
  "validate_configuration config =
     (case environments_of config of
        JObj envs \<Rightarrow>
          (case validate_environments envs (identity_errors config)
                  (if envs = [] then [''No environments configured''] else []) of
             Inl e \<Rightarrow> Inl e
           | Inr (errs, warns) \<Rightarrow> Inr \<lparr>valid = (errs = []), errors = errs, warnings = warns\<rparr>)
      | _ \<Rightarrow> Inl AttributeError)"
  by (cases "environments_of config")
     (auto simp: validate_configuration_def environments_of_def identity_errors_def
        absent_or_empty_def Let_def split: sum.splits)

lemma validate_configuration_returns:
  assumes "validation_shape_ok config"
  obtains envs errs warns where
    "environments_of config = JObj envs"
    "validate_environments envs (identity_errors config)
       (if envs = [] then [''No environments configured''] else []) = Inr (errs, warns)"
    "validate_configuration config = Inr \<lparr>valid = (errs = []), errors = errs, warnings = warns\<rparr>"
proof -
  from assms obtain envs where e: "environments_of config = JObj envs"
    and sh: "list_all (\<lambda>(n, v). environment_shape_ok v) envs"
    by (cases "environments_of config") (auto simp: validation_shape_ok_def)
  from validate_environments_returns[OF sh] obtain errs warns where
    v: "validate_environments envs (identity_errors config)
       (if envs = [] then [''No environments configured''] else []) = Inr (errs, warns)"
    by blast
  have "validate_configuration config = Inr \<lparr>valid = (errs = []), errors = errs, warnings = warns\<rparr>"
    unfolding validate_configuration_unfold e using v by simp
  with e v show ?thesis using that by blast
qed

lemma replica_error_not_identity: "replica_error n \<notin> set (identity_errors config)"
  by (simp add: replica_error_def identity_errors_def)

lemma replica_error_inject: "replica_error n = replica_error m \<longleftrightarrow> n = m"
  by (simp add: replica_error_def)

subsection \<open>Validity and the error list\<close>

text \<open>
  Claim C1. Whenever the validator returns a result, the result is valid if and only if
  its error list is empty; in particular a result with warnings and no errors is valid.
\<close>

theorem validate_valid_iff_no_errors:
  "validate_configuration config = Inr r \<Longrightarrow>
     (valid r \<longleftrightarrow> errors r = []) \<and> (errors r = [] \<and> warnings r \<noteq> [] \<longrightarrow> valid r)"
  unfolding validate_configuration_unfold
  by (auto split: json.splits sum.splits)

text \<open>A configuration with a warning and no error is returned as valid.\<close>

theorem validate_valid_iff_no_errors_witness:
  "validate_configuration
     \<lparr>apiVersion = ''platform.idp/v1alpha1'', kind = ''ApplicationConfiguration'',
      metadata = [(''name'', JStr ''shop-config''), (''namespace'', JStr ''team-a'')],
      spec = [(''application'', JStr ''shop'')]\<rparr>
   = Inr \<lparr>valid = True, errors = [], warnings = [''No environments configured'']\<rparr>
   \<and> valid \<lparr>valid = True, errors = [], warnings = [''No environments configured'']\<rparr>"
proof -
  have e: "validate_configuration
     \<lparr>apiVersion = ''platform.idp/v1alpha1'', kind = ''ApplicationConfiguration'',
      metadata = [(''name'', JStr ''shop-config''), (''namespace'', JStr ''team-a'')],
      spec = [(''application'', JStr ''shop'')]\<rparr>
   = Inr \<lparr>valid = True, errors = [], warnings = [''No environments configured'']\<rparr>"
    by (simp add: validate_configuration_def dict_get_def dict_get_default_def)
  from validate_valid_iff_no_errors[OF e] e show ?thesis by simp
qed

subsection \<open>The identity fields\<close>

text \<open>
  Claim C2, as stated, fails: the validator raises instead of returning a result when the
  \<open>environments\<close> entry is not a dict of well-shaped environments, whatever the identity
  fields are. Here the name is missing and \<open>environments\<close> is \<open>null\<close>.
\<close>

theorem missing_name_null_environments_raises:
  "absent_or_empty [] ''name'' \<and>
   validate_configuration
     \<lparr>apiVersion = ''platform.idp/v1alpha1'', kind = ''ApplicationConfiguration'',
      metadata = [], spec = [(''environments'', JNull)]\<rparr>
   = Inl AttributeError"
  by (simp add: validate_configuration_def absent_or_empty_def dict_get_def dict_get_default_def)

text \<open>
  Claim C2, amended. On every configuration whose environments are well shaped the
  validator returns a result, and for each of the name, the namespace and the application
  identifier that is missing or empty, the result is invalid and its error list contains
  the error of that field.
\<close>

theorem missing_identity_fields_rejected:
  assumes "validation_shape_ok config"
  shows "\<exists>r. validate_configuration config = Inr r \<and>
    (absent_or_empty (metadata config) ''name'' \<longrightarrow>
       \<not> valid r \<and> ''Configuration name is required'' \<in> set (errors r)) \<and>
    (absent_or_empty (metadata config) ''namespace'' \<longrightarrow>
       \<not> valid r \<and> ''Namespace is required'' \<in> set (errors r)) \<and>
    (absent_or_empty (spec config) ''application'' \<longrightarrow>
       \<not> valid r \<and> ''Application name is required'' \<in> set (errors r))"
proof -
  from assms obtain envs errs warns where
    v: "validate_environments envs (identity_errors config)
       (if envs = [] then [''No environments configured''] else []) = Inr (errs, warns)"
    and r: "validate_configuration config = Inr \<lparr>valid = (errs = []), errors = errs, warnings = warns\<rparr>"
    by (rule validate_configuration_returns)
  from validate_environments_errors[OF v]
  have sub: "set (identity_errors config) \<subseteq> set errs" by blast
  have "absent_or_empty (metadata config) ''name'' \<Longrightarrow>
          ''Configuration name is required'' \<in> set (identity_errors config)"
    and "absent_or_empty (metadata config) ''namespace'' \<Longrightarrow>
          ''Namespace is required'' \<in> set (identity_errors config)"
    and "absent_or_empty (spec config) ''application'' \<Longrightarrow>
          ''Application name is required'' \<in> set (identity_errors config)"
    by (simp_all add: identity_errors_def)
  with sub r show ?thesis by auto
qed

text \<open>An empty name, no namespace and a \<open>null\<close> application: three errors.\<close>

theorem missing_identity_fields_rejected_witness:
  "validation_shape_ok
     \<lparr>apiVersion = ''platform.idp/v1alpha1'', kind = ''ApplicationConfiguration'',
      metadata = [(''name'', JStr [])], spec = [(''application'', JNull)]\<rparr>
   \<and> (\<exists>r. validate_configuration
          \<lparr>apiVersion = ''platform.idp/v1alpha1'', kind = ''ApplicationConfiguration'',
           metadata = [(''name'', JStr [])], spec = [(''application'', JNull)]\<rparr> = Inr r
        \<and> \<not> valid r
        \<and> ''Configuration name is required'' \<in> set (errors r)
        \<and> ''Namespace is required'' \<in> set (errors r)
        \<and> ''Application name is required'' \<in> set (errors r))"
proof -
  have h: "validation_shape_ok
     \<lparr>apiVersion = ''platform.idp/v1alpha1'', kind = ''ApplicationConfiguration'',
      metadata = [(''name'', JStr [])], spec = [(''application'', JNull)]\<rparr>"
    by (simp add: validation_shape_ok_def environments_of_def dict_get_default_def)
  show ?thesis
    using h missing_identity_fields_rejected [OF h]
    by (auto simp add: absent_or_empty_def dict_get_def dict_get_default_def)
qed

subsection \<open>The replica count of an environment\<close>

text \<open>
  Claim C3, as stated, fails in two ways. An environment with replica count 0 whose
  \<open>resources\<close> entry is a list makes the validator raise, so there is no error list. And
  the replica count \<open>true\<close>, which is not an integer of the payload, passes
  \<open>isinstance(x, int)\<close> and compares as 1: no error is produced for it.
\<close>

theorem replica_count_unchecked_examples:
  "validate_configuration
     \<lparr>apiVersion = ''platform.idp/v1alpha1'', kind = ''ApplicationConfiguration'',
      metadata = [(''name'', JStr ''shop-config''), (''namespace'', JStr ''team-a'')],
      spec = [(''application'', JStr ''shop''),
              (''environments'', JObj [(''dev'', JObj [(''replicas'', JInt 0),
                                                       (''resources'', JList [])])])]\<rparr>
   = Inl AttributeError
   \<and>
   validate_configuration
     \<lparr>apiVersion = ''platform.idp/v1alpha1'', kind = ''ApplicationConfiguration'',
      metadata = [(''name'', JStr ''shop-config''), (''namespace'', JStr ''team-a'')],
      spec = [(''application'', JStr ''shop''),
              (''environments'', JObj [(''dev'', JObj [
                 (''replicas'', JBool True),
                 (''resources'', JObj [(''requests'', JObj [(''cpu'', JStr ''100m'')]),
                                      (''limits'', JObj [(''cpu'', JStr ''500m'')])])])])]\<rparr>
   = Inr \<lparr>valid = True, errors = [], warnings = []\<rparr>"
  by (simp add: validate_configuration_def dict_get_def dict_get_default_def)

text \<open>
  Claim C3, amended. On every configuration whose environments are well shaped the
  validator returns a result, and for every environment of the environment map: when the
  replica count is neither an integer greater than 0 nor the boolean \<open>true\<close>, the error
  list contains the error naming that environment; when it is an integer greater than
  0, the error list does not contain it. An absent replica count reads as \<open>None\<close>; the
  names of the environments are the keys of a dict, hence distinct.
\<close>

theorem replica_count_checked:
  assumes "validation_shape_ok config"
    and "environments_of config = JObj envs"
    and "wf_dict envs"
    and "(env_name, JObj ec) \<in> set envs"
  shows "\<exists>r. validate_configuration config = Inr r \<and>
    (\<not> positive_integer (dict_get ec ''replicas'') \<and> dict_get ec ''replicas'' \<noteq> JBool True
       \<longrightarrow> replica_error env_name \<in> set (errors r)) \<and>
    (positive_integer (dict_get ec ''replicas'')
       \<longrightarrow> replica_error env_name \<notin> set (errors r))"
proof -
  from assms(1) obtain envs' errs warns where
    e: "environments_of config = JObj envs'" and
    v: "validate_environments envs' (identity_errors config)
       (if envs' = [] then [''No environments configured''] else []) = Inr (errs, warns)"
    and r: "validate_configuration config = Inr \<lparr>valid = (errs = []), errors = errs, warnings = warns\<rparr>"
    by (rule validate_configuration_returns)
  from e assms(2) have eq: "envs' = envs" by simp
  note E = validate_environments_errors[OF v, unfolded eq]
  have rej: "replicas_rejected ec \<longleftrightarrow>
      \<not> positive_integer (dict_get ec ''replicas'') \<and> dict_get ec ''replicas'' \<noteq> JBool True"
    by (cases "map_of ec ''replicas''"; cases "dict_get ec ''replicas''")
       (auto simp: replicas_rejected_def dict_get_def dict_get_default_def)
  have unique: "ec' = ec" if "(env_name, JObj ec') \<in> set envs" for ec'
  proof -
    from assms(3) that have "map_of envs env_name = Some (JObj ec')"
      unfolding wf_dict_def by (rule map_of_is_SomeI)
    moreover from assms(3,4) have "map_of envs env_name = Some (JObj ec)"
      unfolding wf_dict_def by (rule map_of_is_SomeI)
    ultimately show "ec' = ec" by simp
  qed
  have "replica_error env_name \<in> set errs \<longleftrightarrow>
        (\<exists>n ec'. replica_error env_name = replica_error n \<and> (n, JObj ec') \<in> set envs
                  \<and> replicas_rejected ec')"
    unfolding E using replica_error_not_identity[of env_name config] by blast
  also have "\<dots> \<longleftrightarrow> (\<exists>ec'. (env_name, JObj ec') \<in> set envs \<and> replicas_rejected ec')"
    unfolding replica_error_inject by blast
  also have "\<dots> \<longleftrightarrow> replicas_rejected ec"
    using unique assms(4) by blast
  finally have "replica_error env_name \<in> set errs \<longleftrightarrow> replicas_rejected ec" .
  with r rej show ?thesis by simp
qed

text \<open>Two environments: \<open>dev\<close> with 0 replicas is reported, \<open>prod\<close> with 3 is not.\<close>

theorem replica_count_checked_witness:
  "validation_shape_ok
     \<lparr>apiVersion = ''platform.idp/v1alpha1'', kind = ''ApplicationConfiguration'',
      metadata = [], spec = [(''environments'', JObj [(''dev'', JObj [(''replicas'', JInt 0)]),
                                                     (''prod'', JObj [(''replicas'', JInt 3)])])]\<rparr>
   \<and> wf_dict [(''dev'', JObj [(''replicas'', JInt 0)]), (''prod'', JObj [(''replicas'', JInt 3)])]
   \<and> (\<exists>r. validate_configuration
          \<lparr>apiVersion = ''platform.idp/v1alpha1'', kind = ''ApplicationConfiguration'',
           metadata = [], spec = [(''environments'', JObj [(''dev'', JObj [(''replicas'', JInt 0)]),
                                                          (''prod'', JObj [(''replicas'', JInt 3)])])]\<rparr>
          = Inr r
        \<and> replica_error ''dev'' \<in> set (errors r))
   \<and> (\<exists>r. validate_configuration
          \<lparr>apiVersion = ''platform.idp/v1alpha1'', kind = ''ApplicationConfiguration'',
           metadata = [], spec = [(''environments'', JObj [(''dev'', JObj [(''replicas'', JInt 0)]),
                                                          (''prod'', JObj [(''replicas'', JInt 3)])])]\<rparr>
          = Inr r
        \<and> replica_error ''prod'' \<notin> set (errors r))"
proof -
  let ?envs = "[(''dev'', JObj [(''replicas'', JInt 0)]), (''prod'', JObj [(''replicas'', JInt 3)])]"
  let ?c = "\<lparr>apiVersion = ''platform.idp/v1alpha1'', kind = ''ApplicationConfiguration'',
      metadata = [], spec = [(''environments'', JObj ?envs)]\<rparr>"
  have h1: "validation_shape_ok ?c"
    by (simp add: validation_shape_ok_def environments_of_def dict_get_default_def)
  have h2: "environments_of ?c = JObj ?envs"
    by (simp add: environments_of_def dict_get_default_def)
  have h3: "wf_dict ?envs"
    by (simp add: wf_dict_def)
  have h4: "(''dev'', JObj [(''replicas'', JInt 0)]) \<in> set ?envs"
    and h5: "(''prod'', JObj [(''replicas'', JInt 3)]) \<in> set ?envs"
    by simp_all
  show ?thesis
    using h1 h3 replica_count_checked [OF h1 h2 h3 h4] replica_count_checked [OF h1 h2 h3 h5]
    by (auto simp add: dict_get_def dict_get_default_def)
qed

subsection \<open>The resources of an environment\<close>

text \<open>
  Claim C4, as stated, fails: an environment whose \<open>resources\<close> entry is \<open>null\<close> lacks
  requests and limits, and the validator raises on it instead of appending a warning.
\<close>

theorem null_resources_raises:
  "validate_configuration
     \<lparr>apiVersion = ''platform.idp/v1alpha1'', kind = ''ApplicationConfiguration'',
      metadata = [(''name'', JStr ''shop-config''), (''namespace'', JStr ''team-a'')],
      spec = [(''application'', JStr ''shop''),
              (''environments'', JObj [(''dev'', JObj [(''replicas'', JInt 1),
                                                       (''resources'', JNull)])])]\<rparr>
   = Inl AttributeError"
  by (simp add: validate_configuration_def dict_get_def dict_get_default_def)

text \<open>
  Claim C4, amended. On every configuration whose environments are well shaped the
  validator returns a result; for every environment whose resources (an empty dict when
  the entry is absent) lack requests or limits, the warning list contains the warning
  naming that environment; and when the configuration has no other defect, the result is
  valid.
\<close>

theorem incomplete_resources_only_warn:
  assumes "validation_shape_ok config"
    and "environments_of config = JObj envs"
    and "(env_name, JObj ec) \<in> set envs"
    and "dict_get_default ec ''resources'' (JObj []) = JObj resources"
    and "resources_incomplete resources"
  shows "\<exists>r. validate_configuration config = Inr r \<and>
    resource_warning env_name \<in> set (warnings r) \<and>
    (no_other_defect config \<longrightarrow> valid r)"
proof -
  from assms(1) obtain envs' errs warns where
    e: "environments_of config = JObj envs'" and
    v: "validate_environments envs' (identity_errors config)
       (if envs' = [] then [''No environments configured''] else []) = Inr (errs, warns)"
    and r: "validate_configuration config = Inr \<lparr>valid = (errs = []), errors = errs, warnings = warns\<rparr>"
    by (rule validate_configuration_returns)
  from e assms(2) have eq: "envs' = envs" by simp
  note W = validate_environments_warnings[OF v, unfolded eq]
  note E = validate_environments_errors[OF v, unfolded eq]
  have w: "resource_warning env_name \<in> set warns"
    unfolding W using assms(3,4,5) by blast
  have "errs = []" if nd: "no_other_defect config"
  proof -
    from nd have "identity_errors config = []"
      by (simp add: no_other_defect_def identity_errors_def)
    moreover from nd assms(2) have "\<not> replicas_rejected ec'" if "(n, JObj ec') \<in> set envs" for n ec'
      using that by (auto simp: no_other_defect_def list_all_iff)
    ultimately have "set errs = {}"
      unfolding E by simp
    then show ?thesis by simp
  qed
  with r w show ?thesis by simp
qed

text \<open>One environment with a good replica count and no resources: a warning, and valid.\<close>

theorem incomplete_resources_only_warn_witness:
  "validation_shape_ok
     \<lparr>apiVersion = ''platform.idp/v1alpha1'', kind = ''ApplicationConfiguration'',
      metadata = [(''name'', JStr ''shop-config''), (''namespace'', JStr ''team-a'')],
      spec = [(''application'', JStr ''shop''),
              (''environments'', JObj [(''dev'', JObj [(''replicas'', JInt 1)])])]\<rparr>
   \<and> resources_incomplete []
   \<and> no_other_defect
     \<lparr>apiVersion = ''platform.idp/v1alpha1'', kind = ''ApplicationConfiguration'',
      metadata = [(''name'', JStr ''shop-config''), (''namespace'', JStr ''team-a'')],
      spec = [(''application'', JStr ''shop''),
              (''environments'', JObj [(''dev'', JObj [(''replicas'', JInt 1)])])]\<rparr>
   \<and> (\<exists>r. validate_configuration
          \<lparr>apiVersion = ''platform.idp/v1alpha1'', kind = ''ApplicationConfiguration'',
           metadata = [(''name'', JStr ''shop-config''), (''namespace'', JStr ''team-a'')],
           spec = [(''application'', JStr ''shop''),
                   (''environments'', JObj [(''dev'', JObj [(''replicas'', JInt 1)])])]\<rparr>
          = Inr r
        \<and> resource_warning ''dev'' \<in> set (warnings r) \<and> valid r)"
proof -
  let ?envs = "[(''dev'', JObj [(''replicas'', JInt 1)])]"
  let ?c = "\<lparr>apiVersion = ''platform.idp/v1alpha1'', kind = ''ApplicationConfiguration'',
      metadata = [(''name'', JStr ''shop-config''), (''namespace'', JStr ''team-a'')],
      spec = [(''application'', JStr ''shop''), (''environments'', JObj ?envs)]\<rparr>"
  have h1: "validation_shape_ok ?c"
    by (simp add: validation_shape_ok_def environments_of_def dict_get_default_def)
  have h2: "environments_of ?c = JObj ?envs"
    by (simp add: environments_of_def dict_get_default_def)
  have h3: "(''dev'', JObj [(''replicas'', JInt 1)]) \<in> set ?envs"
    by simp
  have h4: "dict_get_default [(''replicas'', JInt 1)] ''resources'' (JObj []) = JObj []"
    by (simp add: dict_get_default_def)
  have h5: "resources_incomplete []"
    by (simp add: resources_incomplete_def dict_get_def dict_get_default_def)
  have h6: "no_other_defect ?c"
    by (simp add: no_other_defect_def absent_or_empty_def environments_of_def
        replicas_rejected_def dict_get_def dict_get_default_def)
  show ?thesis
    using h1 h5 h6 incomplete_resources_only_warn [OF h1 h2 h3 h4 h5]
    by auto
qed

section \<open>Properties of the manifest generator\<close>

lemma dict_getitem_truthy: "truthy (dict_get d k) \<Longrightarrow> dict_getitem d k = Inr (dict_get d k)"
  by (cases "map_of d k") (simp_all add: dict_get_def dict_get_default_def dict_getitem_def)

lemma dict_getitem_Some: "map_of d k = Some v \<Longrightarrow> dict_getitem d k = Inr v"
  by (simp add: dict_getitem_def)

lemma sub_spec_fields:
  assumes "truthy v" and "sub_spec_shape_ok v"
  obtains d t s where "v = JObj d" and "map_of d ''type'' = Some t" and "map_of d ''size'' = Some s"
  using assms by (cases v) (auto simp: sub_spec_shape_ok_def)

lemma database_manifest_ok:
  assumes "map_of (spec config) ''application'' = Some app"
    and "map_of (metadata config) ''namespace'' = Some ns"
    and "truthy db" and "sub_spec_shape_ok db"
  shows "database_manifest py_str config n db
         = Inr (spec_database_manifest (format_field py_str app) ns n db)"
proof -
  from assms(3,4) obtain d t s where db: "db = JObj d"
    and t: "map_of d ''type'' = Some t" and s: "map_of d ''size'' = Some s"
    by (rule sub_spec_fields)
  show ?thesis
    unfolding database_manifest_def spec_database_manifest_def db
    by (simp add: dict_getitem_Some[OF assms(1)] dict_getitem_Some[OF assms(2)]
        subscript_def dict_getitem_Some[OF t] dict_getitem_Some[OF s]
        field_def dict_get_def dict_get_default_def t s)
qed

lemma cache_manifest_ok:
  assumes "map_of (spec config) ''application'' = Some app"
    and "map_of (metadata config) ''namespace'' = Some ns"
    and "truthy cache" and "sub_spec_shape_ok cache"
  shows "cache_manifest py_str config n cache
         = Inr (spec_cache_manifest (format_field py_str app) ns n cache)"
proof -
  from assms(3,4) obtain d t s where c: "cache = JObj d"
    and t: "map_of d ''type'' = Some t" and s: "map_of d ''size'' = Some s"
    by (rule sub_spec_fields)
  show ?thesis
    unfolding cache_manifest_def spec_cache_manifest_def c
    by (simp add: dict_getitem_Some[OF assms(1)] dict_getitem_Some[OF assms(2)]
        subscript_def dict_getitem_Some[OF t] dict_getitem_Some[OF s]
        field_def field_default_def dict_get_def dict_get_default_def t s)
qed

lemma environment_manifests_step:
  assumes "map_of (spec config) ''application'' = Some app"
    and "map_of (metadata config) ''namespace'' = Some ns"
    and "environment_manifest_shape_ok v"
  shows "environment_manifests py_str config ((n, v) # rest) manifests
         = environment_manifests py_str config rest
             (manifests @ spec_environment_manifests (format_field py_str app) ns (n, v))"
proof -
  from assms(3) obtain ec where v: "v = JObj ec"
    and db: "sub_spec_shape_ok (dict_get ec ''database'')"
    and ca: "sub_spec_shape_ok (dict_get ec ''cache'')"
    by (cases v) auto
  have d: "truthy (dict_get ec ''database'') \<Longrightarrow>
           and_then (dict_getitem ec ''database'') (database_manifest py_str config n)
           = Inr (spec_database_manifest (format_field py_str app) ns n (dict_get ec ''database''))"
    by (simp add: dict_getitem_truthy database_manifest_ok[OF assms(1,2) _ db])
  have c: "truthy (dict_get ec ''cache'') \<Longrightarrow>
           and_then (dict_getitem ec ''cache'') (cache_manifest py_str config n)
           = Inr (spec_cache_manifest (format_field py_str app) ns n (dict_get ec ''cache''))"
    by (simp add: dict_getitem_truthy cache_manifest_ok[OF assms(1,2) _ ca])
  have unfold_db: "and_then (dict_getitem ec ''database'')
                     (\<lambda>db_config. and_then (database_manifest py_str config n db_config) f)
                   = and_then (and_then (dict_getitem ec ''database'')
                                 (database_manifest py_str config n)) f" for f :: "json \<Rightarrow> error + json list"
    by (cases "dict_getitem ec ''database''") simp_all
  have unfold_ca: "and_then (dict_getitem ec ''cache'')
                     (\<lambda>cache_config. and_then (cache_manifest py_str config n cache_config) f)
                   = and_then (and_then (dict_getitem ec ''cache'')
                                 (cache_manifest py_str config n)) f" for f :: "json \<Rightarrow> error + json list"
    by (cases "dict_getitem ec ''cache''") simp_all
  show ?thesis
    unfolding v
    by (simp add: unfold_db unfold_ca d c spec_environment_manifests_def has_database_def
        has_cache_def field_def)
qed

lemma environment_manifests_ok:
  assumes "map_of (spec config) ''application'' = Some app"
    and "map_of (metadata config) ''namespace'' = Some ns"
  shows "list_all (\<lambda>(n, v). environment_manifest_shape_ok v) envs \<Longrightarrow>
         environment_manifests py_str config envs manifests
         = Inr (manifests @ concat (map (spec_environment_manifests (format_field py_str app) ns) envs))"
proof (induction envs arbitrary: manifests)
  case Nil
  then show ?case by simp
next
  case (Cons a envs)
  obtain n v where a: "a = (n, v)" by (cases a)
  from Cons.prems a have sh: "environment_manifest_shape_ok v"
    and rest: "list_all (\<lambda>(n, v). environment_manifest_shape_ok v) envs"
    by simp_all
  show ?case
    unfolding a environment_manifests_step[OF assms sh] Cons.IH[OF rest]
    by simp
qed

lemma generate_manifests_ok:
  assumes "manifest_shape_ok config"
    and "map_of (spec config) ''application'' = Some app"
    and "map_of (metadata config) ''namespace'' = Some ns"
    and "environments_of config = JObj envs"
  shows "generate_manifests py_str config
         = Inr (spec_manifests app (format_field py_str app) ns envs)"
proof -
  from assms(1,4) have sh: "list_all (\<lambda>(n, v). environment_manifest_shape_ok v) envs"
    by (simp add: manifest_shape_ok_def)
  from assms(4) have e: "dict_get_default (spec config) ''environments'' (JObj []) = JObj envs"
    by (simp add: environments_of_def)
  show ?thesis
    unfolding generate_manifests_def
    by (simp add: dict_getitem_Some[OF assms(2)] dict_getitem_Some[OF assms(3)] e
        environment_manifests_ok[OF assms(2,3) sh] spec_manifests_def
        spec_application_manifest_def)
qed

lemma manifest_kinds:
  "manifest_kind (spec_application_manifest app ns environments) = JStr ''WebApplication''"
  "manifest_kind (spec_database_manifest a ns n db) = JStr ''DatabaseInstance''"
  "manifest_kind (spec_cache_manifest a ns n cache) = JStr ''CacheInstance''"
  by (simp_all add: manifest_kind_def field_def dict_get_def dict_get_default_def
      spec_application_manifest_def spec_database_manifest_def spec_cache_manifest_def)

lemma environment_manifests_no_application:
  "filter (\<lambda>m. manifest_kind m = JStr ''WebApplication'')
     (concat (map (spec_environment_manifests a ns) envs)) = []"
  by (induction envs) (simp_all add: spec_environment_manifests_def manifest_kinds)

lemma length_environment_manifests:
  "length (concat (map (spec_environment_manifests a ns) envs))
   = length (filter has_database envs) + length (filter has_cache envs)"
  by (induction envs) (simp_all add: spec_environment_manifests_def)

text \<open>
  Claim C5, as stated, fails: \<open>_generate_manifests\<close> reads \<open>config.spec["application"]\<close>
  and \<open>config.metadata["namespace"]\<close> with a subscript, so a configuration without an
  application raises \<open>KeyError\<close>; the preview turns it into a service error with status
  500 and emits no manifest.
\<close>

theorem preview_without_application_fails:
  "generate_manifests example_str
     \<lparr>apiVersion = ''platform.idp/v1alpha1'', kind = ''ApplicationConfiguration'',
      metadata = [(''name'', JStr ''shop-config''), (''namespace'', JStr ''team-a'')],
      spec = [(''environments'', JObj [])]\<rparr>
   = Inl (KeyError ''application'')
   \<and>
   preview_configuration example_dump example_str example_text
     \<lparr>apiVersion = ''platform.idp/v1alpha1'', kind = ''ApplicationConfiguration'',
      metadata = [(''name'', JStr ''shop-config''), (''namespace'', JStr ''team-a'')],
      spec = [(''environments'', JObj [])]\<rparr>
   = Inl (HTTPException 500 (''Failed to generate preview: '' @ [CHR 0x27] @ ''application'' @ [CHR 0x27]))"
  by (simp add: preview_configuration_def generate_manifests_def dict_getitem_def example_text_def)

text \<open>
  Claim C5, amended. For every configuration whose spec has an application, whose
  metadata has a namespace, whose environments are a map of dicts, and in which every
  truthy \<open>database\<close> or \<open>cache\<close> entry is a dict with a type and a size: the manifests are
  exactly the application manifest carrying the environment map, followed, for each
  environment in the order of the map, by the database manifest named
  \<open>{application}-{environment}-db\<close> when the \<open>database\<close> entry is truthy and then the cache
  manifest named \<open>{application}-{environment}-cache\<close> when the \<open>cache\<close> entry is truthy; the
  preview is the join of their serialisations. The list is a function of the configuration
  alone, so two runs on the same input give the same list. Only the first manifest is an
  application manifest; the number of manifests is one plus the number of environments
  with a database plus the number with a cache, which is three when one environment has
  a database and one has a cache.
\<close>

theorem preview_manifests_in_order:
  assumes "manifest_shape_ok config"
    and "map_of (spec config) ''application'' = Some app"
    and "map_of (metadata config) ''namespace'' = Some ns"
    and "environments_of config = JObj envs"
  shows "generate_manifests py_str config
           = Inr (spec_manifests app (format_field py_str app) ns envs)
       \<and> preview_configuration yaml_dump py_str exc_text config
           = Inr (join ([CHR 0x0A] @ ''---'' @ [CHR 0x0A])
                    (map yaml_dump (spec_manifests app (format_field py_str app) ns envs)))
       \<and> filter (\<lambda>m. manifest_kind m = JStr ''WebApplication'')
            (spec_manifests app (format_field py_str app) ns envs)
           = [spec_application_manifest app ns (JObj envs)]
       \<and> length (spec_manifests app (format_field py_str app) ns envs)
           = 1 + length (filter has_database envs) + length (filter has_cache envs)
       \<and> (length (filter has_database envs) = 1 \<and> length (filter has_cache envs) = 1
            \<longrightarrow> length (spec_manifests app (format_field py_str app) ns envs) = 3)"
proof -
  note g = generate_manifests_ok[OF assms, of py_str]
  have p: "preview_configuration yaml_dump py_str exc_text config
           = Inr (join ([CHR 0x0A] @ ''---'' @ [CHR 0x0A])
                    (map yaml_dump (spec_manifests app (format_field py_str app) ns envs)))"
    unfolding preview_configuration_def g by simp
  have f: "filter (\<lambda>m. manifest_kind m = JStr ''WebApplication'')
            (spec_manifests app (format_field py_str app) ns envs)
           = [spec_application_manifest app ns (JObj envs)]"
    unfolding spec_manifests_def
    by (simp add: manifest_kinds environment_manifests_no_application)
  have l: "length (spec_manifests app (format_field py_str app) ns envs)
           = 1 + length (filter has_database envs) + length (filter has_cache envs)"
    unfolding spec_manifests_def by (simp add: length_environment_manifests)
  from g p f l show ?thesis by simp
qed

text \<open>
  Two environments, \<open>dev\<close> with a database and \<open>prod\<close> with a cache: three manifests, named
  \<open>shop\<close>, \<open>shop-dev-db\<close> and \<open>shop-prod-cache\<close>.
\<close>

theorem preview_manifests_in_order_witness:
  "manifest_shape_ok
     \<lparr>apiVersion = ''platform.idp/v1alpha1'', kind = ''ApplicationConfiguration'',
      metadata = [(''name'', JStr ''shop-config''), (''namespace'', JStr ''team-a'')],
      spec = [(''application'', JStr ''shop''),
              (''environments'', JObj [
                 (''dev'', JObj [(''replicas'', JInt 1),
                    (''database'', JObj [(''type'', JStr ''postgresql''), (''size'', JStr ''small'')])]),
                 (''prod'', JObj [(''replicas'', JInt 3),
                    (''cache'', JObj [(''type'', JStr ''redis''), (''size'', JStr ''large'')])])])]\<rparr>
   \<and> generate_manifests example_str
     \<lparr>apiVersion = ''platform.idp/v1alpha1'', kind = ''ApplicationConfiguration'',
      metadata = [(''name'', JStr ''shop-config''), (''namespace'', JStr ''team-a'')],
      spec = [(''application'', JStr ''shop''),
              (''environments'', JObj [
                 (''dev'', JObj [(''replicas'', JInt 1),
                    (''database'', JObj [(''type'', JStr ''postgresql''), (''size'', JStr ''small'')])]),
                 (''prod'', JObj [(''replicas'', JInt 3),
                    (''cache'', JObj [(''type'', JStr ''redis''), (''size'', JStr ''large'')])])])]\<rparr>
   = Inr [
      JObj [(''apiVersion'', JStr ''platform.idp/v1alpha1''),
            (''kind'', JStr ''WebApplication''),
            (''metadata'', JObj [(''name'', JStr ''shop''), (''namespace'', JStr ''team-a'')]),
            (''spec'', JObj [(''environments'', JObj [
                 (''dev'', JObj [(''replicas'', JInt 1),
                    (''database'', JObj [(''type'', JStr ''postgresql''), (''size'', JStr ''small'')])]),
                 (''prod'', JObj [(''replicas'', JInt 3),
                    (''cache'', JObj [(''type'', JStr ''redis''), (''size'', JStr ''large'')])])])])],
      JObj [(''apiVersion'', JStr ''platform.idp/v1alpha1''),
            (''kind'', JStr ''DatabaseInstance''),
            (''metadata'', JObj [(''name'', JStr ''shop-dev-db''), (''namespace'', JStr ''team-a'')]),
            (''spec'', JObj [(''type'', JStr ''postgresql''), (''size'', JStr ''small''),
                            (''environment'', JStr ''dev'')])],
      JObj [(''apiVersion'', JStr ''platform.idp/v1alpha1''),
            (''kind'', JStr ''CacheInstance''),
            (''metadata'', JObj [(''name'', JStr ''shop-prod-cache''), (''namespace'', JStr ''team-a'')]),
            (''spec'', JObj [(''type'', JStr ''redis''), (''size'', JStr ''large''),
                            (''nodes'', JInt 1), (''environment'', JStr ''prod'')])]]"
proof -
  let ?envs = "[
                 (''dev'', JObj [(''replicas'', JInt 1),
                    (''database'', JObj [(''type'', JStr ''postgresql''), (''size'', JStr ''small'')])]),
                 (''prod'', JObj [(''replicas'', JInt 3),
                    (''cache'', JObj [(''type'', JStr ''redis''), (''size'', JStr ''large'')])])]"
  let ?c = "\<lparr>apiVersion = ''platform.idp/v1alpha1'', kind = ''ApplicationConfiguration'',
      metadata = [(''name'', JStr ''shop-config''), (''namespace'', JStr ''team-a'')],
      spec = [(''application'', JStr ''shop''), (''environments'', JObj ?envs)]\<rparr>"
  have h1: "manifest_shape_ok ?c"
    by (simp add: manifest_shape_ok_def environments_of_def sub_spec_shape_ok_def
        dict_get_def dict_get_default_def)
  have h2: "map_of (spec ?c) ''application'' = Some (JStr ''shop'')"
    and h3: "map_of (metadata ?c) ''namespace'' = Some (JStr ''team-a'')"
    by simp_all
  have h4: "environments_of ?c = JObj ?envs"
    by (simp add: environments_of_def dict_get_default_def)
  have m: "spec_manifests (JStr ''shop'') (format_field example_str (JStr ''shop''))
             (JStr ''team-a'') ?envs
           = [
      JObj [(''apiVersion'', JStr ''platform.idp/v1alpha1''),
            (''kind'', JStr ''WebApplication''),
            (''metadata'', JObj [(''name'', JStr ''shop''), (''namespace'', JStr ''team-a'')]),
            (''spec'', JObj [(''environments'', JObj ?envs)])],
      JObj [(''apiVersion'', JStr ''platform.idp/v1alpha1''),
            (''kind'', JStr ''DatabaseInstance''),
            (''metadata'', JObj [(''name'', JStr ''shop-dev-db''), (''namespace'', JStr ''team-a'')]),
            (''spec'', JObj [(''type'', JStr ''postgresql''), (''size'', JStr ''small''),
                            (''environment'', JStr ''dev'')])],
      JObj [(''apiVersion'', JStr ''platform.idp/v1alpha1''),
            (''kind'', JStr ''CacheInstance''),
            (''metadata'', JObj [(''name'', JStr ''shop-prod-cache''), (''namespace'', JStr ''team-a'')]),
            (''spec'', JObj [(''type'', JStr ''redis''), (''size'', JStr ''large''),
                            (''nodes'', JInt 1), (''environment'', JStr ''prod'')])]]"
    by (simp add: spec_manifests_def spec_environment_manifests_def spec_application_manifest_def
        spec_database_manifest_def spec_cache_manifest_def has_database_def has_cache_def
        field_def field_default_def format_field_def dict_get_def dict_get_default_def)
  show ?thesis
    using h1 preview_manifests_in_order [OF h1 h2 h3 h4, of example_str example_dump example_text]
    unfolding m by simp
qed

section \<open>Properties of the template catalogue\<close>

text \<open>
  Claim C6. Whatever templates the template directory holds, applying the template
  \<open>web-application\<close> to the application \<open>foo\<close> in the namespace \<open>ns1\<close> returns the
  configuration named \<open>foo-config\<close> in \<open>ns1\<close>, labelled with the application and the
  template, whose spec has the application and the two environments of the built-in
  template: \<open>development\<close> with 1 replica and \<open>production\<close> with 3, each with its fixed
  resource requests and limits. The operation takes and returns no cluster state: nothing
  is persisted.
\<close>

theorem apply_web_application_template:
  "apply_template custom ''web-application'' ''foo'' ''ns1'' =
     Inr \<lparr>apiVersion = ''platform.idp/v1alpha1'',
          kind = ''ApplicationConfiguration'',
          metadata = [
            (''name'', JStr ''foo-config''),
            (''namespace'', JStr ''ns1''),
            (''labels'', JObj [(''app'', JStr ''foo''), (''template'', JStr ''web-application'')])],
          spec = [
            (''application'', JStr ''foo''),
            (''environments'', JObj [
               (''development'', JObj [
                  (''replicas'', JInt 1),
                  (''resources'', JObj [
                     (''requests'', JObj [(''cpu'', JStr ''100m''), (''memory'', JStr ''128Mi'')]),
                     (''limits'', JObj [(''cpu'', JStr ''500m''), (''memory'', JStr ''512Mi'')])])]),
               (''production'', JObj [
                  (''replicas'', JInt 3),
                  (''resources'', JObj [
                     (''requests'', JObj [(''cpu'', JStr ''500m''), (''memory'', JStr ''512Mi'')]),
                     (''limits'', JObj [(''cpu'', JStr ''1000m''), (''memory'', JStr ''1Gi'')])])])])]\<rparr>"
  by (simp add: apply_template_def get_templates_def builtin_templates_def dict_update_def
      dict_get_default_def)

section \<open>Properties of the store facade\<close>

lemma map_of_dict_set:
  "map_of (dict_set d k v) k' = (if k' = k then Some v else map_of d k')"
  by (induction d) auto

lemma map_of_dict_setdefault:
  "map_of (dict_setdefault d k v) k'
   = (if k' = k \<and> map_of d k = None then Some v else map_of d k')"
  by (cases "map_of d k") (auto simp: dict_setdefault_def map_add_def split: option.splits)

lemma sent_call_api: "sent (snd (call_api api req w)) = sent w @ [req]"
  by (simp add: call_api_def split: prod.splits)

lemma set_annotation_dict:
  "map_of md ''annotations'' = Some (JObj a) \<Longrightarrow>
   set_annotation md k v = Inr (dict_set md ''annotations'' (JObj (dict_set a k v)))"
  by (simp add: set_annotation_def dict_getitem_def)

lemma setdefault_annotations:
  "annotations_assignable md \<Longrightarrow>
   map_of (dict_setdefault md ''annotations'' (JObj [])) ''annotations''
   = Some (JObj (annotations_of md))"
  by (auto simp: annotations_assignable_def annotations_of_def map_of_dict_setdefault
      split: option.splits json.splits)

lemma set_annotation_raises:
  "\<not> annotations_assignable md \<Longrightarrow>
   set_annotation (dict_setdefault md ''annotations'' (JObj [])) k v = Inl TypeError"
  by (auto simp: annotations_assignable_def set_annotation_def dict_getitem_def
      map_of_dict_setdefault split: option.splits json.splits)

lemma annotations_of_dict_set:
  "annotations_of (dict_set md ''annotations'' (JObj a)) = a"
  by (simp add: annotations_of_def map_of_dict_set)

lemma update_configuration_sends:
  assumes "annotations_assignable (metadata config)"
    and "map_of (metadata config) ''namespace'' = Some ns"
    and "map_of (metadata config) ''name'' = Some n"
  shows "snd (update_configuration api utcnow parse config w)
         = snd (call_api api
             (PatchRequest ns n
                (config\<lparr>metadata :=
                   dict_set (dict_setdefault (metadata config) ''annotations'' (JObj []))
                     ''annotations''
                     (JObj (dict_set (annotations_of (metadata config)) ''lastModified''
                              (JStr (utcnow (clock_reads w)))))\<rparr>))
             (w\<lparr>clock_reads := Suc (clock_reads w)\<rparr>))"
  unfolding update_configuration_def utcnow_isoformat_def Let_def
  by (simp add: set_annotation_dict[OF setdefault_annotations[OF assms(1)]] dict_getitem_def
      map_of_dict_set map_of_dict_setdefault assms(2,3)
      split: prod.splits sum.splits error.splits)

lemma update_configuration_raises:
  assumes "\<not> (annotations_assignable (metadata config)
              \<and> map_of (metadata config) ''namespace'' \<noteq> None
              \<and> map_of (metadata config) ''name'' \<noteq> None)"
  shows "sent (snd (update_configuration api utcnow parse config w)) = sent w"
proof (cases "annotations_assignable (metadata config)")
  case False
  then show ?thesis
    unfolding update_configuration_def utcnow_isoformat_def Let_def
    by (simp add: set_annotation_raises)
next
  case True
  with assms have "map_of (metadata config) ''namespace'' = None
                   \<or> map_of (metadata config) ''name'' = None" by blast
  then show ?thesis
    unfolding update_configuration_def utcnow_isoformat_def Let_def
    by (auto simp: set_annotation_dict[OF setdefault_annotations[OF True]] dict_getitem_def
        map_of_dict_set map_of_dict_setdefault split: option.splits)
qed

lemma create_configuration_sends:
  assumes "annotations_assignable (metadata config)"
    and "map_of (metadata config) ''namespace'' = Some ns"
  shows "snd (create_configuration api utcnow parse config w)
         = snd (call_api api
             (CreateRequest ns
                (config\<lparr>metadata :=
                   dict_set
                     (dict_set (dict_setdefault (metadata config) ''annotations'' (JObj []))
                        ''annotations''
                        (JObj (dict_set (annotations_of (metadata config)) ''created''
                                 (JStr (utcnow (clock_reads w))))))
                     ''annotations''
                     (JObj (dict_set
                              (dict_set (annotations_of (metadata config)) ''created''
                                 (JStr (utcnow (clock_reads w))))
                              ''lastModified'' (JStr (utcnow (Suc (clock_reads w))))))\<rparr>))
             (w\<lparr>clock_reads := Suc (Suc (clock_reads w))\<rparr>))"
proof -
  let ?md0 = "dict_setdefault (metadata config) ''annotations'' (JObj [])"
  let ?a1 = "dict_set (annotations_of (metadata config)) ''created'' (JStr (utcnow (clock_reads w)))"
  let ?md1 = "dict_set ?md0 ''annotations'' (JObj ?a1)"
  have s1: "set_annotation ?md0 ''created'' (JStr (utcnow (clock_reads w))) = Inr ?md1"
    by (rule set_annotation_dict[OF setdefault_annotations[OF assms(1)]])
  have m1: "map_of ?md1 ''annotations'' = Some (JObj ?a1)"
    by (simp add: map_of_dict_set)
  note s2 = set_annotation_dict[OF m1, of "''lastModified''" "JStr (utcnow (Suc (clock_reads w)))"]
  show ?thesis
    unfolding create_configuration_def utcnow_isoformat_def Let_def
    by (simp add: s1 s2 dict_getitem_def map_of_dict_set map_of_dict_setdefault assms(2)
        split: prod.splits sum.splits error.splits)
qed

subsection \<open>Deleting\<close>

text \<open>
  Claim C7. When the cluster API answers the delete request with the not-found fault
  (status 404), \<open>delete_configuration\<close> succeeds; so does a second delete of the same
  identity, whenever the API reports it absent after the first. A fault of the API with
  any other status is raised as the service error with status 500 and the fault's text;
  any other exception of the call is raised unchanged.
\<close>

theorem delete_is_idempotent:
  "(fst (api (DeleteRequest namespace n) (cluster w)) = Inl (ApiException 404 text)
      \<longrightarrow> fst (delete_configuration api n namespace w) = Inr ())
   \<and> (fst (api (DeleteRequest namespace n)
              (cluster (snd (delete_configuration api n namespace w))))
        = Inl (ApiException 404 text)
      \<longrightarrow> fst (delete_configuration api n namespace
                 (snd (delete_configuration api n namespace w))) = Inr ())
   \<and> (fst (api (DeleteRequest namespace n) (cluster w)) = Inl (ApiException status text)
        \<and> status \<noteq> 404
      \<longrightarrow> fst (delete_configuration api n namespace w)
          = Inl (HTTPException 500 (''Failed to delete configuration: '' @ text)))
   \<and> (fst (api (DeleteRequest namespace n) (cluster w)) = Inl e
        \<and> (\<forall>status text. e \<noteq> ApiException status text)
      \<longrightarrow> fst (delete_configuration api n namespace w) = Inl e)"
proof -
  have one: "fst (delete_configuration api n namespace v) = Inr ()"
    if "fst (api (DeleteRequest namespace n) (cluster v)) = Inl (ApiException 404 text)" for v
    using that unfolding delete_configuration_def call_api_def
    by (cases "api (DeleteRequest namespace n) (cluster v)") simp
  have other: "fst (delete_configuration api n namespace w)
          = Inl (HTTPException 500 (''Failed to delete configuration: '' @ text))"
    if "fst (api (DeleteRequest namespace n) (cluster w)) = Inl (ApiException status text)"
      and "status \<noteq> 404"
    using that unfolding delete_configuration_def call_api_def
    by (cases "api (DeleteRequest namespace n) (cluster w)") simp
  have raw: "fst (delete_configuration api n namespace w) = Inl e"
    if "fst (api (DeleteRequest namespace n) (cluster w)) = Inl e"
      and "\<forall>status text. e \<noteq> ApiException status text"
    using that unfolding delete_configuration_def call_api_def
    by (cases "api (DeleteRequest namespace n) (cluster w)"; cases e) simp_all
  from one other raw show ?thesis by blast
qed

text \<open>
  On the example cluster: deleting an identity the cluster holds and deleting it again
  both succeed, as does deleting one it never held; a forbidden delete is a service error
  and a transport failure is raised as it is.
\<close>

theorem delete_is_idempotent_witness:
  "fst (delete_configuration example_api ''shop-config'' ''team-a''
          \<lparr>cluster = [(''team-a'', ''shop-config'')], sent = [], clock_reads = 0\<rparr>) = Inr ()
   \<and> fst (delete_configuration example_api ''shop-config'' ''team-a''
          (snd (delete_configuration example_api ''shop-config'' ''team-a''
                  \<lparr>cluster = [(''team-a'', ''shop-config'')], sent = [], clock_reads = 0\<rparr>)))
     = Inr ()
   \<and> fst (delete_configuration example_api ''other'' ''team-a''
          \<lparr>cluster = [(''team-a'', ''shop-config'')], sent = [], clock_reads = 0\<rparr>) = Inr ()
   \<and> fst (delete_configuration example_api ''shop-config'' ''locked''
          \<lparr>cluster = [(''team-a'', ''shop-config'')], sent = [], clock_reads = 0\<rparr>)
     = Inl (HTTPException 500 (''Failed to delete configuration: '' @ ''Forbidden''))
   \<and> fst (delete_configuration example_api ''shop-config'' ''offline''
          \<lparr>cluster = [(''team-a'', ''shop-config'')], sent = [], clock_reads = 0\<rparr>)
     = Inl (OtherException ''connection refused'')"
proof -
  let ?w = "\<lparr>cluster = [(''team-a'', ''shop-config'')], sent = [], clock_reads = 0\<rparr>
            :: (string \<times> string) list world"
  have first: "fst (delete_configuration example_api ''shop-config'' ''team-a'' ?w) = Inr ()"
    and after: "cluster (snd (delete_configuration example_api ''shop-config'' ''team-a'' ?w)) = []"
    by (simp_all add: delete_configuration_def call_api_def example_api_def)
  have h2: "fst (example_api (DeleteRequest ''team-a'' ''shop-config'')
                  (cluster (snd (delete_configuration example_api ''shop-config'' ''team-a'' ?w))))
            = Inl (ApiException 404 ''Not Found'')"
    unfolding after by (simp add: example_api_def)
  have h1: "fst (example_api (DeleteRequest ''team-a'' ''other'') (cluster ?w))
            = Inl (ApiException 404 ''Not Found'')"
    by (simp add: example_api_def)
  have h3: "fst (example_api (DeleteRequest ''locked'' ''shop-config'') (cluster ?w))
            = Inl (ApiException 403 ''Forbidden'') \<and> (403::int) \<noteq> 404"
    by (simp add: example_api_def)
  have h4: "fst (example_api (DeleteRequest ''offline'' ''shop-config'') (cluster ?w))
            = Inl (OtherException ''connection refused'')
            \<and> (\<forall>status text. OtherException ''connection refused'' \<noteq> ApiException status text)"
    by (simp add: example_api_def)
  show ?thesis
    using first
      delete_is_idempotent [of example_api "''team-a''" "''shop-config''" ?w "''Not Found''"]
      delete_is_idempotent [of example_api "''team-a''" "''other''" ?w "''Not Found''"]
      delete_is_idempotent [of example_api "''locked''" "''shop-config''" ?w "''Forbidden''" 403]
      delete_is_idempotent [of example_api "''offline''" "''shop-config''" ?w _ _
         "OtherException ''connection refused''"]
      h1 h2 h3 h4
    by simp
qed

subsection \<open>Stamping\<close>

text \<open>
  Claim C9. The request \<open>create_configuration\<close> sends carries the annotations \<open>created\<close>
  and \<open>lastModified\<close>, stamped with the two readings of the UTC clock the operation takes
  one after the other. The request \<open>update_configuration\<close> sends carries \<open>lastModified\<close>
  stamped with the reading of the clock, and apart from that entry its body is the
  submitted configuration: the same apiVersion, kind and spec, the same value under every
  metadata key other than \<open>annotations\<close>, and the same value under every annotation other
  than \<open>lastModified\<close>, \<open>created\<close> among them. An update that raises before the call (the
  annotations are not a dict, or the metadata has no namespace or name) sends nothing.
\<close>

theorem create_and_update_stamp:
  "(annotations_assignable (metadata config) \<and> map_of (metadata config) ''namespace'' = Some ns
      \<longrightarrow> (\<exists>body. sent (snd (create_configuration api utcnow parse config w))
                     = sent w @ [CreateRequest ns body]
             \<and> map_of (annotations_of (metadata body)) ''created''
                 = Some (JStr (utcnow (clock_reads w)))
             \<and> map_of (annotations_of (metadata body)) ''lastModified''
                 = Some (JStr (utcnow (Suc (clock_reads w))))))
   \<and> (annotations_assignable (metadata config) \<and> map_of (metadata config) ''namespace'' = Some ns
        \<and> map_of (metadata config) ''name'' = Some n
      \<longrightarrow> (\<exists>body. sent (snd (update_configuration api utcnow parse config w))
                     = sent w @ [PatchRequest ns n body]
             \<and> apiVersion body = apiVersion config
             \<and> kind body = kind config
             \<and> spec body = spec config
             \<and> (\<forall>k. k \<noteq> ''annotations''
                    \<longrightarrow> map_of (metadata body) k = map_of (metadata config) k)
             \<and> (\<forall>k. k \<noteq> ''lastModified''
                    \<longrightarrow> map_of (annotations_of (metadata body)) k
                        = map_of (annotations_of (metadata config)) k)
             \<and> map_of (annotations_of (metadata body)) ''lastModified''
                 = Some (JStr (utcnow (clock_reads w)))))
   \<and> (\<not> (annotations_assignable (metadata config)
           \<and> map_of (metadata config) ''namespace'' \<noteq> None
           \<and> map_of (metadata config) ''name'' \<noteq> None)
      \<longrightarrow> sent (snd (update_configuration api utcnow parse config w)) = sent w)"
proof (intro conjI impI)
  assume h: "annotations_assignable (metadata config)
             \<and> map_of (metadata config) ''namespace'' = Some ns"
  then have a: "annotations_assignable (metadata config)"
    and b: "map_of (metadata config) ''namespace'' = Some ns" by simp_all
  show "\<exists>body. sent (snd (create_configuration api utcnow parse config w))
                     = sent w @ [CreateRequest ns body]
             \<and> map_of (annotations_of (metadata body)) ''created''
                 = Some (JStr (utcnow (clock_reads w)))
             \<and> map_of (annotations_of (metadata body)) ''lastModified''
                 = Some (JStr (utcnow (Suc (clock_reads w))))"
    unfolding create_configuration_sends[OF a b] sent_call_api
    by (simp add: annotations_of_dict_set map_of_dict_set)
next
  assume h: "annotations_assignable (metadata config)
             \<and> map_of (metadata config) ''namespace'' = Some ns
             \<and> map_of (metadata config) ''name'' = Some n"
  then have a: "annotations_assignable (metadata config)"
    and b: "map_of (metadata config) ''namespace'' = Some ns"
    and c: "map_of (metadata config) ''name'' = Some n" by simp_all
  show "\<exists>body. sent (snd (update_configuration api utcnow parse config w))
                     = sent w @ [PatchRequest ns n body]
             \<and> apiVersion body = apiVersion config
             \<and> kind body = kind config
             \<and> spec body = spec config
             \<and> (\<forall>k. k \<noteq> ''annotations''
                    \<longrightarrow> map_of (metadata body) k = map_of (metadata config) k)
             \<and> (\<forall>k. k \<noteq> ''lastModified''
                    \<longrightarrow> map_of (annotations_of (metadata body)) k
                        = map_of (annotations_of (metadata config)) k)
             \<and> map_of (annotations_of (metadata body)) ''lastModified''
                 = Some (JStr (utcnow (clock_reads w)))"
    unfolding update_configuration_sends[OF a b c] sent_call_api
    by (simp add: annotations_of_dict_set map_of_dict_set map_of_dict_setdefault)
next
  assume "\<not> (annotations_assignable (metadata config)
           \<and> map_of (metadata config) ''namespace'' \<noteq> None
           \<and> map_of (metadata config) ''name'' \<noteq> None)"
  then show "sent (snd (update_configuration api utcnow parse config w)) = sent w"
    by (rule update_configuration_raises)
qed

text \<open>
  On the example cluster: creating and updating a configuration that has annotations
  sends one request each, and the update keeps the \<open>created\<close> annotation; updating a
  configuration whose annotations are \<open>null\<close> sends nothing.
\<close>

theorem create_and_update_stamp_witness:
  "annotations_assignable (metadata example_config)
   \<and> map_of (metadata example_config) ''namespace'' = Some (JStr ''team-a'')
   \<and> map_of (metadata example_config) ''name'' = Some (JStr ''shop-config'')
   \<and> (\<exists>body. sent (snd (create_configuration example_api example_clock example_parse
                           example_config example_world))
               = sent example_world @ [CreateRequest (JStr ''team-a'') body]
          \<and> map_of (annotations_of (metadata body)) ''created''
              = Some (JStr (example_clock (clock_reads example_world)))
          \<and> map_of (annotations_of (metadata body)) ''lastModified''
              = Some (JStr (example_clock (Suc (clock_reads example_world)))))
   \<and> (\<exists>body. sent (snd (update_configuration example_api example_clock example_parse
                           example_config example_world))
               = sent example_world @ [PatchRequest (JStr ''team-a'') (JStr ''shop-config'') body]
          \<and> spec body = spec example_config
          \<and> map_of (annotations_of (metadata body)) ''created''
              = Some (JStr ''2023-12-31T09:00:00'')
          \<and> map_of (annotations_of (metadata body)) ''lastModified''
              = Some (JStr (example_clock (clock_reads example_world))))
   \<and> \<not> annotations_assignable (metadata example_config_null_annotations)
   \<and> sent (snd (update_configuration example_api example_clock example_parse
                  example_config_null_annotations example_world))
       = sent example_world"
proof -
  have h1: "annotations_assignable (metadata example_config)"
    and h2: "map_of (metadata example_config) ''namespace'' = Some (JStr ''team-a'')"
    and h3: "map_of (metadata example_config) ''name'' = Some (JStr ''shop-config'')"
    and h4: "\<not> annotations_assignable (metadata example_config_null_annotations)"
    and c: "map_of (annotations_of (metadata example_config)) ''created''
            = Some (JStr ''2023-12-31T09:00:00'')"
    by (simp_all add: example_config_def example_config_null_annotations_def
        annotations_assignable_def annotations_of_def)
  note good = create_and_update_stamp [of example_config "JStr ''team-a''" example_api
      example_clock example_parse example_world "JStr ''shop-config''"]
  note bad = create_and_update_stamp [of example_config_null_annotations "JStr ''team-a''"
      example_api example_clock example_parse example_world "JStr ''shop-config''"]
  from good h1 h2 obtain b1 where
    b1: "sent (snd (create_configuration example_api example_clock example_parse
                           example_config example_world))
               = sent example_world @ [CreateRequest (JStr ''team-a'') b1]
          \<and> map_of (annotations_of (metadata b1)) ''created''
              = Some (JStr (example_clock (clock_reads example_world)))
          \<and> map_of (annotations_of (metadata b1)) ''lastModified''
              = Some (JStr (example_clock (Suc (clock_reads example_world))))"
    by blast
  from good h1 h2 h3 obtain b2 where
    b2: "sent (snd (update_configuration example_api example_clock example_parse
                           example_config example_world))
               = sent example_world @ [PatchRequest (JStr ''team-a'') (JStr ''shop-config'') b2]"
      "spec b2 = spec example_config"
      "\<forall>k. k \<noteq> ''lastModified''
                    \<longrightarrow> map_of (annotations_of (metadata b2)) k
                        = map_of (annotations_of (metadata example_config)) k"
      "map_of (annotations_of (metadata b2)) ''lastModified''
              = Some (JStr (example_clock (clock_reads example_world)))"
    by blast
  from b2(3) c have "map_of (annotations_of (metadata b2)) ''created''
              = Some (JStr ''2023-12-31T09:00:00'')" by simp
  with b2 have u: "\<exists>body. sent (snd (update_configuration example_api example_clock example_parse
                           example_config example_world))
               = sent example_world @ [PatchRequest (JStr ''team-a'') (JStr ''shop-config'') body]
          \<and> spec body = spec example_config
          \<and> map_of (annotations_of (metadata body)) ''created''
              = Some (JStr ''2023-12-31T09:00:00'')
          \<and> map_of (annotations_of (metadata body)) ''lastModified''
              = Some (JStr (example_clock (clock_reads example_world)))"
    by blast
  from bad h4 have n: "sent (snd (update_configuration example_api example_clock example_parse
                  example_config_null_annotations example_world))
       = sent example_world" by blast
  from h1 h2 h3 h4 b1 u n show ?thesis by blast
qed

subsection \<open>The identity of an update\<close>

text \<open>
  Claim C10. The handler of \<open>PUT /configurations/{namespace}/{name}\<close> invokes the update
  operation on the request body with the metadata entries \<open>name\<close> and \<open>namespace\<close>
  overwritten by the path parameters and every other field unchanged; so the request
  that reaches the cluster, when the update sends one (the annotations of the body can be
  stamped), patches the identity of the path and carries it in its body, whatever identity
  the body claimed. When the annotations cannot be stamped nothing is sent.
\<close>

theorem route_identity_from_path:
  "(\<exists>config'. update_configuration_route api utcnow parse n namespace config w
                = update_configuration api utcnow parse config' w
        \<and> map_of (metadata config') ''name'' = Some (JStr n)
        \<and> map_of (metadata config') ''namespace'' = Some (JStr namespace)
        \<and> (\<forall>k. k \<noteq> ''name'' \<and> k \<noteq> ''namespace''
               \<longrightarrow> map_of (metadata config') k = map_of (metadata config) k)
        \<and> spec config' = spec config
        \<and> apiVersion config' = apiVersion config
        \<and> kind config' = kind config)
   \<and> (annotations_assignable (metadata config)
      \<longrightarrow> (\<exists>body. sent (snd (update_configuration_route api utcnow parse n namespace config w))
                     = sent w @ [PatchRequest (JStr namespace) (JStr n) body]
               \<and> map_of (metadata body) ''name'' = Some (JStr n)
               \<and> map_of (metadata body) ''namespace'' = Some (JStr namespace)))
   \<and> (\<not> annotations_assignable (metadata config)
      \<longrightarrow> sent (snd (update_configuration_route api utcnow parse n namespace config w)) = sent w)"
proof -
  let ?md = "dict_set (dict_set (metadata config) ''name'' (JStr n)) ''namespace'' (JStr namespace)"
  let ?c = "config\<lparr>metadata := ?md\<rparr>"
  have r: "update_configuration_route api utcnow parse n namespace config w
           = update_configuration api utcnow parse ?c w"
    by (simp add: update_configuration_route_def Let_def)
  have nm: "map_of (metadata ?c) ''name'' = Some (JStr n)"
    and ns: "map_of (metadata ?c) ''namespace'' = Some (JStr namespace)"
    and frame: "\<forall>k. k \<noteq> ''name'' \<and> k \<noteq> ''namespace''
               \<longrightarrow> map_of (metadata ?c) k = map_of (metadata config) k"
    by (simp_all add: map_of_dict_set)
  have a: "annotations_assignable (metadata ?c) = annotations_assignable (metadata config)"
    by (simp add: annotations_assignable_def map_of_dict_set)
  have first: "\<exists>config'. update_configuration_route api utcnow parse n namespace config w
                = update_configuration api utcnow parse config' w
        \<and> map_of (metadata config') ''name'' = Some (JStr n)
        \<and> map_of (metadata config') ''namespace'' = Some (JStr namespace)
        \<and> (\<forall>k. k \<noteq> ''name'' \<and> k \<noteq> ''namespace''
               \<longrightarrow> map_of (metadata config') k = map_of (metadata config) k)
        \<and> spec config' = spec config
        \<and> apiVersion config' = apiVersion config
        \<and> kind config' = kind config"
    using r nm ns frame by (intro exI[of _ ?c]) simp
  have second: "\<exists>body. sent (snd (update_configuration_route api utcnow parse n namespace config w))
                     = sent w @ [PatchRequest (JStr namespace) (JStr n) body]
               \<and> map_of (metadata body) ''name'' = Some (JStr n)
               \<and> map_of (metadata body) ''namespace'' = Some (JStr namespace)"
    if "annotations_assignable (metadata config)"
  proof -
    from that a have a': "annotations_assignable (metadata ?c)" by simp
    show ?thesis
      unfolding r update_configuration_sends[OF a' ns nm] sent_call_api
      by (simp add: map_of_dict_set map_of_dict_setdefault)
  qed
  have third: "sent (snd (update_configuration_route api utcnow parse n namespace config w)) = sent w"
    if "\<not> annotations_assignable (metadata config)"
  proof -
    from that a have "\<not> (annotations_assignable (metadata ?c)
              \<and> map_of (metadata ?c) ''namespace'' \<noteq> None
              \<and> map_of (metadata ?c) ''name'' \<noteq> None)" by simp
    then show ?thesis unfolding r by (rule update_configuration_raises)
  qed
  from first second third show ?thesis by blast
qed

text \<open>
  A body that claims the identity \<open>shop-config\<close> in \<open>team-a\<close>, sent to the path of
  \<open>billing-config\<close> in \<open>team-b\<close>: the request patches the identity of the path.
\<close>

theorem route_identity_from_path_witness:
  "annotations_assignable (metadata example_config)
   \<and> map_of (metadata example_config) ''name'' = Some (JStr ''shop-config'')
   \<and> (\<exists>body. sent (snd (update_configuration_route example_api example_clock example_parse
                           ''billing-config'' ''team-b'' example_config example_world))
               = sent example_world
                 @ [PatchRequest (JStr ''team-b'') (JStr ''billing-config'') body]
          \<and> map_of (metadata body) ''name'' = Some (JStr ''billing-config'')
          \<and> map_of (metadata body) ''namespace'' = Some (JStr ''team-b''))
   \<and> \<not> annotations_assignable (metadata example_config_null_annotations)
   \<and> sent (snd (update_configuration_route example_api example_clock example_parse
                  ''billing-config'' ''team-b'' example_config_null_annotations example_world))
       = sent example_world"
proof -
  have h1: "annotations_assignable (metadata example_config)"
    and h2: "map_of (metadata example_config) ''name'' = Some (JStr ''shop-config'')"
    and h3: "\<not> annotations_assignable (metadata example_config_null_annotations)"
    by (simp_all add: example_config_def example_config_null_annotations_def
        annotations_assignable_def)
  from h1 h2 h3
    route_identity_from_path [of example_api example_clock example_parse "''billing-config''"
      "''team-b''" example_config example_world]
    route_identity_from_path [of example_api example_clock example_parse "''billing-config''"
      "''team-b''" example_config_null_annotations example_world]
  show ?thesis by blast
qed

section \<open>Properties of the poll loop\<close>

lemma elapsed_0: "elapsed latency a 0 = 0"
  by (simp add: elapsed_def)

lemma elapsed_Suc: "elapsed latency a (Suc k) = elapsed latency a k + latency (a + k) + 5"
  by (simp add: elapsed_def)

lemma elapsed_lower_bound:
  "(\<forall>i. 0 \<le> latency i) \<Longrightarrow> 5 * of_nat k \<le> elapsed latency a k"
proof (induction k)
  case 0
  then show ?case by (simp add: elapsed_0)
next
  case (Suc k)
  from Suc.prems have "0 \<le> latency (a + k)" by blast
  with Suc.IH[OF Suc.prems] show ?case by (simp add: elapsed_Suc)
qed

text \<open>One round that ends with "not found": the loop sleeps and goes on.\<close>

lemma poll_loop_not_found:
  assumes "now w - start_time < of_int max_wait"
    and "not_found (endpoint (attempts w))"
  shows "poll_loop endpoint latency job_id max_wait start_time w
         = poll_loop endpoint latency job_id max_wait start_time
             (w\<lparr>now := now w + latency (attempts w) + 5, attempts := Suc (attempts w)\<rparr>)"
proof -
  from assms(2) obtain body where e: "endpoint (attempts w) = Response 404 body"
    by (cases "endpoint (attempts w)") (auto simp: not_found_def)
  show ?thesis
    by (subst poll_loop.simps) (simp add: assms(1) e)
qed

text \<open>\<open>k\<close> rounds that end with "not found", each begun before the timeout.\<close>

lemma poll_loop_rounds:
  assumes "\<forall>i<k. not_found (endpoint (attempts w + i))"
    and "\<forall>i<k. now w + elapsed latency (attempts w) i - start_time < of_int max_wait"
  shows "poll_loop endpoint latency job_id max_wait start_time w
         = poll_loop endpoint latency job_id max_wait start_time
             (w\<lparr>now := now w + elapsed latency (attempts w) k, attempts := attempts w + k\<rparr>)"
  using assms
proof (induction k)
  case 0
  then show ?case by (simp add: elapsed_0)
next
  case (Suc k)
  let ?v = "w\<lparr>now := now w + elapsed latency (attempts w) k, attempts := attempts w + k\<rparr>"
  from Suc.prems have ih: "poll_loop endpoint latency job_id max_wait start_time w
         = poll_loop endpoint latency job_id max_wait start_time ?v"
    by (intro Suc.IH) auto
  from Suc.prems(2) have t: "now ?v - start_time < of_int max_wait" by simp
  from Suc.prems(1) have nf: "not_found (endpoint (attempts ?v))" by simp
  note step = poll_loop_not_found[where w = ?v and endpoint = endpoint and latency = latency
      and job_id = job_id, OF t nf]
  show ?case
    unfolding ih step
    by (simp add: elapsed_Suc add.assoc)
qed

lemma wait_rounds:
  assumes "\<forall>i<k. not_found (endpoint (attempts w + i))"
    and "\<forall>i<k. elapsed latency (attempts w) i < of_int max_wait"
  shows "wait_for_completion endpoint latency job_id max_wait w
         = poll_loop endpoint latency job_id max_wait (now w)
             (w\<lparr>now := now w + elapsed latency (attempts w) k, attempts := attempts w + k\<rparr>)"
  unfolding wait_for_completion_def
  using assms by (intro poll_loop_rounds) auto

lemma wait_success:
  assumes "\<forall>i<N. not_found (endpoint (attempts w + i))"
    and "\<forall>k\<le>N. elapsed latency (attempts w) k < of_int max_wait"
    and "endpoint (attempts w + N) = Response 200 (Inr (JObj job_result))"
  shows "wait_for_completion endpoint latency job_id max_wait w
         = Some (Inr (success_result job_id job_result),
                 w\<lparr>now := now w + elapsed latency (attempts w) N + latency (attempts w + N),
                    attempts := attempts w + N + 1\<rparr>)"
proof -
  from assms(2) have before: "\<forall>i<N. elapsed latency (attempts w) i < of_int max_wait"
    and last: "elapsed latency (attempts w) N < of_int max_wait" by auto
  show ?thesis
    unfolding wait_rounds[OF assms(1) before]
    by (subst poll_loop.simps) (simp add: last assms(3) success_result_def)
qed

lemma wait_failure:
  assumes "\<forall>i<N. not_found (endpoint (attempts w + i))"
    and "\<forall>k\<le>N. elapsed latency (attempts w) k < of_int max_wait"
    and "endpoint (attempts w + N) = Response status_code body"
    and "status_code \<noteq> 200" and "status_code \<noteq> 404"
  shows "wait_for_completion endpoint latency job_id max_wait w
         = Some (Inr (failure (''Job failed with status '' @ str_int status_code)),
                 w\<lparr>now := now w + elapsed latency (attempts w) N + latency (attempts w + N),
                    attempts := attempts w + N + 1\<rparr>)"
proof -
  from assms(2) have before: "\<forall>i<N. elapsed latency (attempts w) i < of_int max_wait"
    and last: "elapsed latency (attempts w) N < of_int max_wait" by auto
  show ?thesis
    unfolding wait_rounds[OF assms(1) before]
    by (subst poll_loop.simps) (simp add: last assms(3,4,5))
qed

lemma wait_timeout:
  assumes "\<forall>i. 0 \<le> latency i"
    and "\<forall>i. elapsed latency (attempts w) i < of_int max_wait
             \<longrightarrow> not_found (endpoint (attempts w + i))"
  shows "\<exists>w'. wait_for_completion endpoint latency job_id max_wait w
                = Some (Inr (failure ''Job timeout''), w')
             \<and> attempts w' \<le> attempts w + nat \<lceil>(of_int max_wait :: rat) / 5\<rceil>
             \<and> of_int max_wait \<le> now w' - now w"
proof -
  let ?late = "\<lambda>k. (of_int max_wait :: rat) \<le> elapsed latency (attempts w) k"
  let ?k0 = "nat \<lceil>(of_int max_wait :: rat) / 5\<rceil>"
  have "(of_int max_wait :: rat) / 5 \<le> of_int \<lceil>(of_int max_wait :: rat) / 5\<rceil>"
    by (rule le_of_int_ceiling)
  also have "\<dots> \<le> of_nat ?k0"
    by (metis of_int_of_nat_eq of_int_le_iff nat_le_iff order_refl)
  finally have "(of_int max_wait :: rat) \<le> 5 * of_nat ?k0" by simp
  also have "\<dots> \<le> elapsed latency (attempts w) ?k0"
    by (rule elapsed_lower_bound[OF assms(1)])
  finally have ex: "?late ?k0" .
  define K where "K = (LEAST k. ?late k)"
  from ex have late: "?late K" unfolding K_def by (rule LeastI)
  from ex have bound: "K \<le> ?k0" unfolding K_def by (rule Least_le)
  have early: "elapsed latency (attempts w) i < of_int max_wait" if "i < K" for i
    using not_less_Least[of i ?late] that unfolding K_def by simp
  with assms(2) have nf: "\<forall>i<K. not_found (endpoint (attempts w + i))" by blast
  from early have before: "\<forall>i<K. elapsed latency (attempts w) i < of_int max_wait" by blast
  let ?v = "w\<lparr>now := now w + elapsed latency (attempts w) K, attempts := attempts w + K\<rparr>"
  have "wait_for_completion endpoint latency job_id max_wait w
        = Some (Inr (failure ''Job timeout''), ?v)"
    unfolding wait_rounds[OF nf before]
    using late by (subst poll_loop.simps) simp
  moreover have "attempts ?v \<le> attempts w + ?k0" using bound by simp
  moreover have "of_int max_wait \<le> now ?v - now w" using late by simp
  ultimately show ?thesis by blast
qed

text \<open>
  Claim C8. The client starts polling at the clock reading of its world; the \<open>k\<close>-th round
  begins \<open>elapsed latency a k\<close> seconds later, \<open>a\<close> being the number of requests issued
  before. If the endpoint answers the first \<open>N\<close> requests with "not found" and the next
  with a success payload, each of these rounds beginning before the timeout, the client
  returns the success result of that payload after \<open>N + 1\<close> requests, that is after \<open>N\<close>
  retries. If requests take no negative time and every request made before the timeout
  is answered with "not found", the client returns the timeout failure; it has then issued
  no more than one request per five seconds of the timeout, and the timeout has elapsed.
  If after \<open>N\<close> answers "not found" the endpoint answers with a status that is neither 200
  nor 404, the client returns the failure result for that status after \<open>N + 1\<close> requests,
  without polling again.
\<close>

theorem poll_loop_outcomes:
  "((\<forall>i<N. not_found (endpoint (attempts w + i)))
      \<and> (\<forall>k\<le>N. elapsed latency (attempts w) k < of_int max_wait)
      \<and> endpoint (attempts w + N) = Response 200 (Inr (JObj job_result))
    \<longrightarrow> wait_for_completion endpoint latency job_id max_wait w
        = Some (Inr (success_result job_id job_result),
                w\<lparr>now := now w + elapsed latency (attempts w) N + latency (attempts w + N),
                   attempts := attempts w + N + 1\<rparr>))
   \<and> ((\<forall>i. 0 \<le> latency i)
      \<and> (\<forall>i. elapsed latency (attempts w) i < of_int max_wait
               \<longrightarrow> not_found (endpoint (attempts w + i)))
    \<longrightarrow> (\<exists>w'. wait_for_completion endpoint latency job_id max_wait w
                  = Some (Inr (failure ''Job timeout''), w')
               \<and> attempts w' \<le> attempts w + nat \<lceil>(of_int max_wait :: rat) / 5\<rceil>
               \<and> of_int max_wait \<le> now w' - now w))
   \<and> ((\<forall>i<N. not_found (endpoint (attempts w + i)))
      \<and> (\<forall>k\<le>N. elapsed latency (attempts w) k < of_int max_wait)
      \<and> endpoint (attempts w + N) = Response status_code body
      \<and> status_code \<noteq> 200 \<and> status_code \<noteq> 404
    \<longrightarrow> wait_for_completion endpoint latency job_id max_wait w
        = Some (Inr (failure (''Job failed with status '' @ str_int status_code)),
                w\<lparr>now := now w + elapsed latency (attempts w) N + latency (attempts w + N),
                   attempts := attempts w + N + 1\<rparr>))"
  using wait_success[of N endpoint w latency max_wait job_result job_id]
    wait_timeout[of latency w max_wait endpoint job_id]
    wait_failure[of N endpoint w latency max_wait status_code body job_id]
  by blast

text \<open>
  With the default timeout of 300 seconds and requests of half a second: two answers
  "not found" and then a result give the success after three requests; an endpoint that
  only answers "not found" gives the timeout after at most 60 requests; an answer with
  status 500 after one "not found" gives the failure after two requests.
\<close>

lemma example_elapsed: "elapsed example_latency a k = of_nat k * (11 / 2)"
  by (induction k) (simp_all add: elapsed_0 elapsed_Suc example_latency_def algebra_simps)

theorem poll_loop_outcomes_witness:
  "wait_for_completion example_endpoint example_latency ''job-1'' default_max_wait example_start
     = Some (Inr (JObj [(''success'', JBool True), (''job_id'', JStr ''job-1''),
                        (''result'', JStr ''done''), (''logs'', JList [])]),
             \<lparr>now = 1000 + 23 / 2, attempts = 3\<rparr>)
   \<and> (\<forall>i. 0 \<le> example_latency i)
   \<and> (\<exists>w'. wait_for_completion example_silent_endpoint example_latency ''job-1''
              default_max_wait example_start
            = Some (Inr (failure ''Job timeout''), w')
          \<and> attempts w' \<le> 60)
   \<and> wait_for_completion example_broken_endpoint example_latency ''job-1'' default_max_wait
       example_start
     = Some (Inr (JObj [(''success'', JBool False),
                        (''error'', JStr ''Job failed with status 500'')]),
             \<lparr>now = 1000 + 6, attempts = 2\<rparr>)"
proof -
  have small: "\<forall>k\<le>2. elapsed example_latency (attempts example_start) k
                 < of_int default_max_wait"
  proof (intro allI impI)
    fix k :: nat assume "k \<le> 2"
    then have "(of_nat k :: rat) \<le> 2" by simp
    then show "elapsed example_latency (attempts example_start) k < of_int default_max_wait"
      by (simp add: example_elapsed default_max_wait_def)
  qed
  then have small1: "\<forall>k\<le>1. elapsed example_latency (attempts example_start) k
                 < of_int default_max_wait" by auto
  have nf2: "\<forall>i<2. not_found (example_endpoint (attempts example_start + i))"
    by (simp add: example_endpoint_def not_found_def example_start_def)
  have ok: "example_endpoint (attempts example_start + 2)
            = Response 200 (Inr (JObj [(''result'', JStr ''done'')]))"
    by (simp add: example_endpoint_def example_start_def)
  have nf1: "\<forall>i<1. not_found (example_broken_endpoint (attempts example_start + i))"
    by (simp add: example_broken_endpoint_def not_found_def example_start_def)
  have broken: "example_broken_endpoint (attempts example_start + 1)
                = Response 500 (Inl ''no JSON'') \<and> (500::int) \<noteq> 200 \<and> (500::int) \<noteq> 404"
    by (simp add: example_broken_endpoint_def example_start_def)
  have lat: "\<forall>i. 0 \<le> example_latency i"
    by (simp add: example_latency_def)
  have silent: "\<forall>i. elapsed example_latency (attempts example_start) i < of_int default_max_wait
               \<longrightarrow> not_found (example_silent_endpoint (attempts example_start + i))"
    by (simp add: example_silent_endpoint_def not_found_def)
  have sixty: "nat \<lceil>(of_int default_max_wait :: rat) / 5\<rceil> = 60"
    by (simp add: default_max_wait_def)
  have s500: "str_int 500 = ''500''"
    by (simp add: str_int_def digit_char_def)
  note success = poll_loop_outcomes [of 2 example_endpoint example_start example_latency
      default_max_wait "[(''result'', JStr ''done'')]" "''job-1''" 0 "Inl []"]
  note timeout = poll_loop_outcomes [of 0 example_silent_endpoint example_start example_latency
      default_max_wait "[]" "''job-1''" 0 "Inl []"]
  note failed = poll_loop_outcomes [of 1 example_broken_endpoint example_start example_latency
      default_max_wait "[]" "''job-1''" 500 "Inl ''no JSON''"]
  from success nf2 small ok
  have a: "wait_for_completion example_endpoint example_latency ''job-1'' default_max_wait
             example_start
     = Some (Inr (JObj [(''success'', JBool True), (''job_id'', JStr ''job-1''),
                        (''result'', JStr ''done''), (''logs'', JList [])]),
             \<lparr>now = 1000 + 23 / 2, attempts = 3\<rparr>)"
    by (simp add: success_result_def dict_get_default_def example_elapsed example_latency_def
        example_start_def)
  from timeout lat silent obtain w' where
    t1: "wait_for_completion example_silent_endpoint example_latency ''job-1''
              default_max_wait example_start
            = Some (Inr (failure ''Job timeout''), w')"
    and t2: "attempts w' \<le> attempts example_start
                             + nat \<lceil>(of_int default_max_wait :: rat) / 5\<rceil>"
    by blast
  from t2 have "attempts w' \<le> 60"
    unfolding sixty by (simp add: example_start_def)
  with t1 have b: "\<exists>w'. wait_for_completion example_silent_endpoint example_latency ''job-1''
              default_max_wait example_start
            = Some (Inr (failure ''Job timeout''), w')
          \<and> attempts w' \<le> 60"
    by blast
  from failed nf1 small1 broken
  have c: "wait_for_completion example_broken_endpoint example_latency ''job-1'' default_max_wait
       example_start
     = Some (Inr (JObj [(''success'', JBool False),
                        (''error'', JStr ''Job failed with status 500'')]),
             \<lparr>now = 1000 + 6, attempts = 2\<rparr>)"
    by (simp add: failure_def s500 example_elapsed example_latency_def example_start_def)
  from a lat b c show ?thesis by blast
qed

end
